theory Spec2Isabelle
  imports Complex_Main
begin

section \<open>Common Python primitives\<close>

text \<open>
  \<open>str(n)\<close> for an integer: the decimal digits, with a leading minus sign for a negative
  number.
\<close>

definition digit_char :: "nat \<Rightarrow> char" where
  "digit_char d = ''0123456789'' ! (d mod 10)"

fun str_nat :: "nat \<Rightarrow> string" where
  "str_nat n = (if n < 10 then [digit_char n] else str_nat (n div 10) @ [digit_char (n mod 10)])"

declare str_nat.simps [simp del]

definition str_int :: "int \<Rightarrow> string" where
  "str_int i = (if i < 0 then ''-'' @ str_nat (nat (- i)) else str_nat (nat i))"

text \<open>
  Exceptions are values. \<open>HTTPException\<close> is the web framework's exception with a status
  code and a detail message; every other exception (\<open>URLError\<close>, \<open>OSError\<close>, a failure
  inside the inference library, ...) is \<open>PyError\<close> with its message. \<open>exn_str\<close> is
  \<open>str(e)\<close>: the framework renders an \<open>HTTPException\<close> as \<open>"<status>: <detail>"\<close>.
\<close>

datatype exn = HTTPException int string | PyError string

fun exn_str :: "exn \<Rightarrow> string" where
  "exn_str (HTTPException status detail) = str_int status @ '': '' @ detail"
| "exn_str (PyError msg) = msg"


section \<open>Piper TTS service\<close>

subsection \<open>Configuration (piper-service/config.py)\<close>

record ServiceConfig =
  host :: string
  port :: int
  models_dir :: string
  default_voice :: string
  max_text_length :: int
  max_concurrent_requests :: int
  model_cache_size :: int
  log_level :: string
  log_file :: string

text \<open>\<open>ServiceConfig._validate\<close>: \<open>Inl\<close> is the message of the \<open>ValueError\<close> raised.\<close>

definition validate_config :: "ServiceConfig \<Rightarrow> string + unit" where
  "validate_config c =
     (if port c < 1 \<or> port c > 65535
        then Inl (''Invalid port number: '' @ str_int (port c))
      else if max_text_length c < 1
        then Inl (''Invalid max text length: '' @ str_int (max_text_length c))
      else if max_concurrent_requests c < 1
        then Inl (''Invalid max concurrent requests: '' @ str_int (max_concurrent_requests c))
      else if model_cache_size c < 1
        then Inl (''Invalid model cache size: '' @ str_int (model_cache_size c))
      else if log_level c \<notin> set [''DEBUG'', ''INFO'', ''WARNING'', ''ERROR'', ''CRITICAL'']
        then Inl (''Invalid log level: '' @ log_level c @
                  ''. Must be one of ['DEBUG', 'INFO', 'WARNING', 'ERROR', 'CRITICAL']'')
      else Inr ())"

record voice_info =
  vi_language :: string
  vi_speaker :: string
  vi_quality :: string
  vi_sample_rate :: int
  vi_gender :: string
  vi_base_url :: string

definition hf_base :: string where
  "hf_base = ''https://huggingface.co/rhasspy/piper-voices/resolve/v1.0.0/''"

definition EXTENDED_VOICE_CATALOG :: "(string \<times> voice_info) list" where
  "EXTENDED_VOICE_CATALOG =
    [(''en_US-lessac-medium'',
        \<lparr>vi_language = ''English (US)'', vi_speaker = ''Lessac'', vi_quality = ''medium'',
         vi_sample_rate = 22050, vi_gender = ''female'',
         vi_base_url = hf_base @ ''en/en_US/lessac/medium''\<rparr>),
     (''en_US-lessac-low'',
        \<lparr>vi_language = ''English (US)'', vi_speaker = ''Lessac'', vi_quality = ''low'',
         vi_sample_rate = 16000, vi_gender = ''female'',
         vi_base_url = hf_base @ ''en/en_US/lessac/low''\<rparr>),
     (''en_US-amy-medium'',
        \<lparr>vi_language = ''English (US)'', vi_speaker = ''Amy'', vi_quality = ''medium'',
         vi_sample_rate = 22050, vi_gender = ''female'',
         vi_base_url = hf_base @ ''en/en_US/amy/medium''\<rparr>),
     (''en_US-amy-low'',
        \<lparr>vi_language = ''English (US)'', vi_speaker = ''Amy'', vi_quality = ''low'',
         vi_sample_rate = 16000, vi_gender = ''female'',
         vi_base_url = hf_base @ ''en/en_US/amy/low''\<rparr>),
     (''en_US-danny-low'',
        \<lparr>vi_language = ''English (US)'', vi_speaker = ''Danny'', vi_quality = ''low'',
         vi_sample_rate = 16000, vi_gender = ''male'',
         vi_base_url = hf_base @ ''en/en_US/danny/low''\<rparr>),
     (''en_GB-alan-medium'',
        \<lparr>vi_language = ''English (GB)'', vi_speaker = ''Alan'', vi_quality = ''medium'',
         vi_sample_rate = 22050, vi_gender = ''male'',
         vi_base_url = hf_base @ ''en/en_GB/alan/medium''\<rparr>),
     (''en_GB-alan-low'',
        \<lparr>vi_language = ''English (GB)'', vi_speaker = ''Alan'', vi_quality = ''low'',
         vi_sample_rate = 16000, vi_gender = ''male'',
         vi_base_url = hf_base @ ''en/en_GB/alan/low''\<rparr>),
     (''es_ES-marta-medium'',
        \<lparr>vi_language = ''Spanish (Spain)'', vi_speaker = ''Marta'', vi_quality = ''medium'',
         vi_sample_rate = 22050, vi_gender = ''female'',
         vi_base_url = hf_base @ ''es/es_ES/marta/medium''\<rparr>),
     (''fr_FR-upmc-medium'',
        \<lparr>vi_language = ''French (France)'', vi_speaker = ''UPMC'', vi_quality = ''medium'',
         vi_sample_rate = 22050, vi_gender = ''female'',
         vi_base_url = hf_base @ ''fr/fr_FR/upmc/medium''\<rparr>),
     (''de_DE-thorsten-medium'',
        \<lparr>vi_language = ''German (Germany)'', vi_speaker = ''Thorsten'', vi_quality = ''medium'',
         vi_sample_rate = 22050, vi_gender = ''male'',
         vi_base_url = hf_base @ ''de/de_DE/thorsten/medium''\<rparr>)]"

text \<open>The catalog is a dictionary; its keys are distinct, so lookup is \<open>map_of\<close>.\<close>

definition VOICE_CATALOG :: "string \<rightharpoonup> voice_info" where
  "VOICE_CATALOG = map_of EXTENDED_VOICE_CATALOG"


subsection \<open>Service state and the outside world (piper-service/service.py)\<close>

text \<open>
  The state of the service is the models directory on disk (\<open>files\<close>: path to file
  content) and the global dictionary \<open>voice_models\<close> (voice name to loaded model
  handle; the handle type \<open>'h\<close> is the library's \<open>PiperVoice\<close>, kept abstract).

  \<open>trace\<close> is a ghost field: the log of every filesystem access, network fetch and
  library call the code makes, in order. It lets "performs no network access" and
  "was produced by a successful load" be stated.
\<close>

datatype 'h event =
    FsExists string
  | FsUnlink string
  | NetFetch string string
  | VoiceLoaded string string 'h
  | VoiceLoadFailed string string
  | Synthesized string 'h

record 'h state =
  files :: "string \<rightharpoonup> string"
  voice_models :: "string \<rightharpoonup> 'h"
  trace :: "'h event list"

text \<open>
  The outside world, as one call sees it. \<open>fetch url\<close> is what
  \<open>urllib.request.urlretrieve(url, path)\<close> does: it writes the whole file, or raises,
  possibly after writing part of the file. \<open>piper_load\<close> is
  \<open>piper.PiperVoice.load(model_path, config_path)\<close>: a handle, or the message of the
  exception. \<open>piper_synthesize text handle\<close> is the WAV buffer that
  \<open>voice_model.synthesize(text, wav_file)\<close> leaves behind, or the message of the
  exception.
\<close>

datatype fetch_result = Fetched string | FetchFailed string "string option"

datatype 'h world =
  World (fetch: "string \<Rightarrow> fetch_result")
        (piper_load: "string \<Rightarrow> string \<Rightarrow> string + 'h")
        (piper_synthesize: "string \<Rightarrow> 'h \<Rightarrow> string + string")

definition log_event :: "'h event \<Rightarrow> 'h state \<Rightarrow> 'h state" where
  "log_event e s = s\<lparr>trace := trace s @ [e]\<rparr>"

text \<open>\<open>Path.exists()\<close>\<close>

definition path_exists :: "string \<Rightarrow> 'h state \<Rightarrow> bool \<times> 'h state" where
  "path_exists p s = (files s p \<noteq> None, log_event (FsExists p) s)"

text \<open>\<open>Path.unlink()\<close>: raises \<open>FileNotFoundError\<close> when the file is not there.\<close>

definition path_unlink :: "string \<Rightarrow> 'h state \<Rightarrow> (exn + unit) \<times> 'h state" where
  "path_unlink p s =
     (if files s p = None
        then (Inl (PyError (''[Errno 2] No such file or directory: '' @ [CHR 0x27] @ p @ [CHR 0x27])),
              log_event (FsUnlink p) s)
      else (Inr (), log_event (FsUnlink p) (s\<lparr>files := (files s)(p := None)\<rparr>)))"

text \<open>\<open>urllib.request.urlretrieve(url, path)\<close>\<close>

definition urlretrieve :: "'h world \<Rightarrow> string \<Rightarrow> string \<Rightarrow> 'h state \<Rightarrow> (exn + unit) \<times> 'h state" where
  "urlretrieve w url p s =
     (let s1 = log_event (NetFetch url p) s in
      case fetch w url of
        Fetched content \<Rightarrow> (Inr (), s1\<lparr>files := (files s1)(p \<mapsto> content)\<rparr>)
      | FetchFailed msg partial \<Rightarrow>
          (Inl (PyError msg),
           case partial of
             None \<Rightarrow> s1
           | Some content \<Rightarrow> s1\<lparr>files := (files s1)(p \<mapsto> content)\<rparr>))"

text \<open>\<open>config.models_dir / f"{voice_name}.onnx"\<close> and \<open>... / f"{voice_name}.onnx.json"\<close>\<close>

definition model_path :: "ServiceConfig \<Rightarrow> string \<Rightarrow> string" where
  "model_path config voice_name = models_dir config @ ''/'' @ voice_name @ ''.onnx''"

definition config_path :: "ServiceConfig \<Rightarrow> string \<Rightarrow> string" where
  "config_path config voice_name = models_dir config @ ''/'' @ voice_name @ ''.onnx.json''"


subsection \<open>download_voice_model\<close>

text \<open>\<open>model_path.exists() and config_path.exists()\<close>, with Python's short-circuit.\<close>

definition both_exist :: "string \<Rightarrow> string \<Rightarrow> 'h state \<Rightarrow> bool \<times> 'h state" where
  "both_exist mp cp s =
     (case path_exists mp s of
        (True, s1) \<Rightarrow> path_exists cp s1
      | (False, s1) \<Rightarrow> (False, s1))"

text \<open>The body of the \<open>try\<close> block: fetch the model file, then the metadata file, each
  only when it is not on disk.\<close>

definition fetch_missing ::
  "'h world \<Rightarrow> string \<Rightarrow> string \<Rightarrow> string \<Rightarrow> string \<Rightarrow> 'h state \<Rightarrow> (exn + unit) \<times> 'h state" where
  "fetch_missing w base_url voice_name mp cp s =
     (case path_exists mp s of (model_there, s1) \<Rightarrow>
       (case (if \<not> model_there
                then urlretrieve w (base_url @ ''/'' @ voice_name @ ''.onnx'') mp s1
              else (Inr (), s1)) of
          (Inl e, s2) \<Rightarrow> (Inl e, s2)
        | (Inr u, s2) \<Rightarrow>
            (case path_exists cp s2 of (config_there, s3) \<Rightarrow>
               (if \<not> config_there
                  then urlretrieve w (base_url @ ''/'' @ voice_name @ ''.onnx.json'') cp s3
                else (Inr (), s3)))))"

text \<open>The loop of the \<open>except\<close> block: \<open>for path in [...]: if path.exists(): path.unlink()\<close>.
  An exception of \<open>unlink\<close> leaves the loop.\<close>

fun remove_partial :: "string list \<Rightarrow> 'h state \<Rightarrow> (exn + unit) \<times> 'h state" where
  "remove_partial [] s = (Inr (), s)"
| "remove_partial (p # ps) s =
     (case path_exists p s of
        (True, s1) \<Rightarrow>
          (case path_unlink p s1 of
             (Inl e, s2) \<Rightarrow> (Inl e, s2)
           | (Inr u, s2) \<Rightarrow> remove_partial ps s2)
      | (False, s1) \<Rightarrow> remove_partial ps s1)"

definition download_voice_model ::
  "'h world \<Rightarrow> ServiceConfig \<Rightarrow> string \<Rightarrow> 'h state \<Rightarrow> (exn + string \<times> string) \<times> 'h state" where
  "download_voice_model w config voice_name s =
     (case VOICE_CATALOG voice_name of
        None \<Rightarrow>
          (Inl (HTTPException 404 (''Voice '' @ [CHR 0x27] @ voice_name @ [CHR 0x27] @
                                   '' not found in catalog'')), s)
      | Some voice \<Rightarrow>
          (let mp = model_path config voice_name;
               cp = config_path config voice_name
           in case both_exist mp cp s of
                (True, s1) \<Rightarrow> (Inr (mp, cp), s1)
              | (False, s1) \<Rightarrow>
                  (case fetch_missing w (vi_base_url voice) voice_name mp cp s1 of
                     (Inr u, s2) \<Rightarrow> (Inr (mp, cp), s2)
                   | (Inl e, s2) \<Rightarrow>
                       (case remove_partial [mp, cp] s2 of
                          (Inl e', s3) \<Rightarrow> (Inl e', s3)
                        | (Inr u, s3) \<Rightarrow>
                            (Inl (HTTPException 500
                                    (''Failed to download voice model: '' @ exn_str e)), s3)))))"


subsection \<open>load_voice_model\<close>

definition load_voice_model ::
  "'h world \<Rightarrow> ServiceConfig \<Rightarrow> string \<Rightarrow> 'h state \<Rightarrow> (exn + 'h) \<times> 'h state" where
  "load_voice_model w config voice_name s =
     (case voice_models s voice_name of
        Some voice_model \<Rightarrow> (Inr voice_model, s)
      | None \<Rightarrow>
          (case download_voice_model w config voice_name s of
             (Inl e, s1) \<Rightarrow>
               (Inl (HTTPException 500 (''Failed to load voice model: '' @ exn_str e)), s1)
           | (Inr (mp, cp), s1) \<Rightarrow>
               (case piper_load w mp cp of
                  Inl msg \<Rightarrow>
                    (Inl (HTTPException 500 (''Failed to load voice model: '' @ msg)),
                     log_event (VoiceLoadFailed mp cp) s1)
                | Inr voice_model \<Rightarrow>
                    (Inr voice_model,
                     log_event (VoiceLoaded mp cp voice_model)
                       (s1\<lparr>voice_models := (voice_models s1)(voice_name \<mapsto> voice_model)\<rparr>)))))"


subsection \<open>The /tts endpoint\<close>

record TTSRequest =
  req_text :: string
  req_voice :: "string option"
  req_speed :: "real option"

text \<open>The field constraints of \<open>TTSRequest\<close>, which the framework checks before it calls
  the handler: \<open>text\<close> has \<open>min_length=1, max_length=10000\<close>; \<open>speed\<close> has
  \<open>ge=0.5, le=2.0\<close> (\<open>None\<close> is accepted, the field being \<open>Optional\<close>).\<close>

definition TTSRequest_valid :: "TTSRequest \<Rightarrow> bool" where
  "TTSRequest_valid r =
     (1 \<le> length (req_text r) \<and> length (req_text r) \<le> 10000 \<and>
      (case req_speed r of None \<Rightarrow> True | Some v \<Rightarrow> 1/2 \<le> v \<and> v \<le> 2))"

definition synthesize_audio_sync ::
  "'h world \<Rightarrow> string \<Rightarrow> 'h \<Rightarrow> 'h state \<Rightarrow> (exn + string) \<times> 'h state" where
  "synthesize_audio_sync w txt voice_model s =
     (case piper_synthesize w txt voice_model of
        Inl msg \<Rightarrow> (Inl (PyError msg), log_event (Synthesized txt voice_model) s)
      | Inr wav \<Rightarrow> (Inr wav, log_event (Synthesized txt voice_model) s))"

record Response =
  content :: string
  media_type :: string
  headers :: "(string \<times> string) list"

text \<open>\<open>request.voice or config.default_voice\<close>: \<open>None\<close> and the empty string are falsy.\<close>

definition voice_or_default :: "ServiceConfig \<Rightarrow> TTSRequest \<Rightarrow> string" where
  "voice_or_default config request =
     (case req_voice request of
        None \<Rightarrow> default_voice config
      | Some v \<Rightarrow> if v = [] then default_voice config else v)"

definition text_to_speech ::
  "'h world \<Rightarrow> ServiceConfig \<Rightarrow> TTSRequest \<Rightarrow> 'h state \<Rightarrow> (exn + Response) \<times> 'h state" where
  "text_to_speech w config request s =
     (let voice_name = voice_or_default config request in
      case load_voice_model w config voice_name s of
        (Inl e, s1) \<Rightarrow>
          (Inl (HTTPException 500 (''TTS generation failed: '' @ exn_str e)), s1)
      | (Inr voice_model, s1) \<Rightarrow>
          (case synthesize_audio_sync w (req_text request) voice_model s1 of
             (Inl e, s2) \<Rightarrow>
               (Inl (HTTPException 500 (''TTS generation failed: '' @ exn_str e)), s2)
           | (Inr audio_data, s2) \<Rightarrow>
               (Inr \<lparr>content = audio_data, media_type = ''audio/wav'',
                     headers = [(''Content-Disposition'', ''inline; filename=\"speech.wav\"''),
                                (''Content-Length'', str_nat (length audio_data))]\<rparr>, s2)))"

text \<open>\<open>POST /tts\<close> as the framework serves it: a body that violates the field constraints
  is answered 422 and the handler is not called.\<close>

definition post_tts ::
  "'h world \<Rightarrow> ServiceConfig \<Rightarrow> TTSRequest \<Rightarrow> 'h state \<Rightarrow> (exn + Response) \<times> 'h state" where
  "post_tts w config request s =
     (if TTSRequest_valid request then text_to_speech w config request s
      else (Inl (HTTPException 422 ''Unprocessable Entity''), s))"


subsection \<open>The other operations on the cache and the models directory\<close>

text \<open>\<open>POST /download-voice\<close>: the answer, and the state after the background task
  (\<open>download_voice_model\<close>, whose outcome nobody reads) has run.\<close>

definition download_voice ::
  "'h world \<Rightarrow> ServiceConfig \<Rightarrow> string \<Rightarrow> 'h state \<Rightarrow> (exn + string) \<times> 'h state" where
  "download_voice w config voice_name s =
     (case VOICE_CATALOG voice_name of
        None \<Rightarrow>
          (Inl (HTTPException 404 (''Voice '' @ [CHR 0x27] @ voice_name @ [CHR 0x27] @
                                   '' not found in catalog'')), s)
      | Some voice \<Rightarrow>
          (case both_exist (model_path config voice_name) (config_path config voice_name) s of
             (True, s1) \<Rightarrow> (Inr ''already_exists'', s1)
           | (False, s1) \<Rightarrow>
               (Inr ''downloading'', snd (download_voice_model w config voice_name s1))))"

text \<open>\<open>GET /health\<close> reports \<open>len(voice_models)\<close>.\<close>

definition health_check :: "ServiceConfig \<Rightarrow> 'h state \<Rightarrow> (string \<times> nat \<times> string \<times> string)" where
  "health_check config s =
     (''healthy'', card (dom (voice_models s)), default_voice config, models_dir config)"

text \<open>Startup pre-loads the default voice and only logs a failure; shutdown clears the
  cache.\<close>

definition startup_event :: "'h world \<Rightarrow> ServiceConfig \<Rightarrow> 'h state \<Rightarrow> 'h state" where
  "startup_event w config s = snd (load_voice_model w config (default_voice config) s)"

definition shutdown_event :: "'h state \<Rightarrow> 'h state" where
  "shutdown_event s = s\<lparr>voice_models := Map.empty\<rparr>"

text \<open>One operation of the service, with the outside world it meets, and a run of the
  service: operations handled one after the other.\<close>

datatype 'h operation =
    PostTTS "'h world" TTSRequest
  | PostDownloadVoice "'h world" string
  | GetHealth
  | Startup "'h world"
  | Shutdown

fun handle :: "ServiceConfig \<Rightarrow> 'h operation \<Rightarrow> 'h state \<Rightarrow> 'h state" where
  "handle config (PostTTS w request) s = snd (post_tts w config request s)"
| "handle config (PostDownloadVoice w voice_name) s = snd (download_voice w config voice_name s)"
| "handle config GetHealth s = s"
| "handle config (Startup w) s = startup_event w config s"
| "handle config Shutdown s = shutdown_event s"

fun serve :: "ServiceConfig \<Rightarrow> 'h operation list \<Rightarrow> 'h state \<Rightarrow> 'h state" where
  "serve config [] s = s"
| "serve config (op # ops) s = serve config ops (handle config op s)"

definition fresh_state :: "(string \<rightharpoonup> string) \<Rightarrow> 'h state" where
  "fresh_state disk = \<lparr>files = disk, voice_models = Map.empty, trace = []\<rparr>"

text \<open>The cache invariant: every cached handle belongs to a catalog voice and is the
  handle that a successful \<open>PiperVoice.load\<close> of that voice's two artifacts returned.\<close>

definition cache_inv :: "ServiceConfig \<Rightarrow> 'h state \<Rightarrow> bool" where
  "cache_inv config s =
     (\<forall>v h. voice_models s v = Some h \<longrightarrow>
        v \<in> dom VOICE_CATALOG \<and>
        VoiceLoaded (model_path config v) (config_path config v) h \<in> set (trace s))"


subsection \<open>Interleaved requests\<close>

text \<open>
  The handlers are coroutines on one event loop: one runs at a time and gives way only at
  an \<open>await\<close> that really suspends. \<open>load_voice_model\<close> suspends once, while
  \<open>PiperVoice.load\<close> runs in the executor (\<open>download_voice_model\<close> is awaited but never
  suspends: it has no \<open>await\<close> of its own and \<open>urlretrieve\<close> blocks). So a call is two
  uninterrupted blocks: up to the suspension, and from the outcome of the load on.
\<close>

datatype 'h load_progress = LoadReturned "exn + 'h" | LoadSuspended string string

definition load_voice_model_begin ::
  "'h world \<Rightarrow> ServiceConfig \<Rightarrow> string \<Rightarrow> 'h state \<Rightarrow> 'h load_progress \<times> 'h state" where
  "load_voice_model_begin w config voice_name s =
     (case voice_models s voice_name of
        Some voice_model \<Rightarrow> (LoadReturned (Inr voice_model), s)
      | None \<Rightarrow>
          (case download_voice_model w config voice_name s of
             (Inl e, s1) \<Rightarrow>
               (LoadReturned
                  (Inl (HTTPException 500 (''Failed to load voice model: '' @ exn_str e))), s1)
           | (Inr (mp, cp), s1) \<Rightarrow> (LoadSuspended mp cp, s1)))"

definition load_voice_model_resume ::
  "string \<Rightarrow> string \<Rightarrow> string \<Rightarrow> string + 'h \<Rightarrow> 'h state \<Rightarrow> (exn + 'h) \<times> 'h state" where
  "load_voice_model_resume voice_name mp cp outcome s =
     (case outcome of
        Inl msg \<Rightarrow>
          (Inl (HTTPException 500 (''Failed to load voice model: '' @ msg)),
           log_event (VoiceLoadFailed mp cp) s)
      | Inr voice_model \<Rightarrow>
          (Inr voice_model,
           log_event (VoiceLoaded mp cp voice_model)
             (s\<lparr>voice_models := (voice_models s)(voice_name \<mapsto> voice_model)\<rparr>)))"

text \<open>The server between two blocks: the shared state and the calls of
  \<open>load_voice_model\<close> that wait for their load, each with its voice and its two paths. A
  turn is one uninterrupted block: a call enters \<open>load_voice_model\<close>; the load that the
  \<open>i\<close>-th waiting call waits for ends with an outcome; \<open>/download-voice\<close> runs;
  the cache is cleared at shutdown.\<close>

record 'h server =
  shared :: "'h state"
  waiting :: "(string \<times> string \<times> string) list"

datatype 'h turn =
    BeginLoad "'h world" string
  | FinishLoad nat "string + 'h"
  | DownloadTask "'h world" string
  | ClearCache

fun take_turn :: "ServiceConfig \<Rightarrow> 'h turn \<Rightarrow> 'h server \<Rightarrow> 'h server" where
  "take_turn config (BeginLoad w voice_name) sv =
     (case load_voice_model_begin w config voice_name (shared sv) of
        (LoadReturned r, s1) \<Rightarrow> sv\<lparr>shared := s1\<rparr>
      | (LoadSuspended mp cp, s1) \<Rightarrow>
          sv\<lparr>shared := s1, waiting := waiting sv @ [(voice_name, mp, cp)]\<rparr>)"
| "take_turn config (FinishLoad i outcome) sv =
     (if i < length (waiting sv)
        then (case waiting sv ! i of (voice_name, mp, cp) \<Rightarrow>
                sv\<lparr>shared := snd (load_voice_model_resume voice_name mp cp outcome (shared sv)),
                   waiting := take i (waiting sv) @ drop (Suc i) (waiting sv)\<rparr>)
      else sv)"
| "take_turn config (DownloadTask w voice_name) sv =
     sv\<lparr>shared := snd (download_voice w config voice_name (shared sv))\<rparr>"
| "take_turn config ClearCache sv = sv\<lparr>shared := shutdown_event (shared sv)\<rparr>"

fun interleave :: "ServiceConfig \<Rightarrow> 'h turn list \<Rightarrow> 'h server \<Rightarrow> 'h server" where
  "interleave config [] sv = sv"
| "interleave config (t # ts) sv = interleave config ts (take_turn config t sv)"

definition idle :: "'h state \<Rightarrow> 'h server" where
  "idle s = \<lparr>shared = s, waiting = []\<rparr>"


section \<open>Whisper ASR service\<close>

subsection \<open>Python string and number formatting\<close>

text \<open>\<open>sep.join(xs)\<close>\<close>

fun str_join :: "string \<Rightarrow> string list \<Rightarrow> string" where
  "str_join sep [] = []"
| "str_join sep [x] = x"
| "str_join sep (x # y # ys) = x @ sep @ str_join sep (y # ys)"

definition zfill :: "nat \<Rightarrow> string \<Rightarrow> string" where
  "zfill width s = replicate (width - length s) (CHR ''0'') @ s"

text \<open>\<open>format(i, "0<width>d")\<close>: zero padding goes after the sign, which counts in the width.\<close>

definition fmt_0d :: "nat \<Rightarrow> int \<Rightarrow> string" where
  "fmt_0d width i =
     (if i < 0 then ''-'' @ zfill (width - 1) (str_nat (nat (- i)))
      else zfill width (str_nat (nat i)))"

text \<open>Float operations, on the exact value of the float: \<open>x // y\<close>, \<open>x % y\<close> (for a positive
  \<open>y\<close>) and \<open>int(x)\<close>, which truncates towards zero.\<close>

definition py_floordiv :: "rat \<Rightarrow> rat \<Rightarrow> rat" where
  "py_floordiv x y = of_int \<lfloor>x / y\<rfloor>"

definition py_mod :: "rat \<Rightarrow> rat \<Rightarrow> rat" where
  "py_mod x y = x - y * of_int \<lfloor>x / y\<rfloor>"

definition py_int :: "rat \<Rightarrow> int" where
  "py_int x = (if x < 0 then - \<lfloor>- x\<rfloor> else \<lfloor>x\<rfloor>)"

text \<open>Rounding to an integer, ties to even: how \<open>format(x, ".3f")\<close> rounds the
  thousandths of a non-negative \<open>x\<close>.\<close>

definition round_half_even :: "rat \<Rightarrow> int" where
  "round_half_even x =
     (let f = \<lfloor>x\<rfloor>; r = x - of_int f
      in if r < 1/2 then f else if 1/2 < r then f + 1 else if even f then f else f + 1)"

text \<open>\<open>format(x, "06.3f")\<close>\<close>

definition fmt_06_3f :: "rat \<Rightarrow> string" where
  "fmt_06_3f x =
     (let n = round_half_even (\<bar>x\<bar> * 1000);
          body = str_nat (nat (n div 1000)) @ ''.'' @ zfill 3 (str_nat (nat (n mod 1000)))
      in if x < 0 then ''-'' @ zfill 5 body else zfill 6 body)"

definition seconds_to_vtt_time :: "rat \<Rightarrow> string" where
  "seconds_to_vtt_time seconds =
     (let hours = py_int (py_floordiv seconds 3600);
          minutes = py_int (py_floordiv (py_mod seconds 3600) 60);
          seconds1 = py_mod seconds 60
      in fmt_0d 2 hours @ '':'' @ fmt_0d 2 minutes @ '':'' @ fmt_06_3f seconds1)"

definition seconds_to_srt_time :: "rat \<Rightarrow> string" where
  "seconds_to_srt_time seconds =
     (let hours = py_int (py_floordiv seconds 3600);
          minutes = py_int (py_floordiv (py_mod seconds 3600) 60);
          seconds1 = py_mod seconds 60;
          milliseconds = py_int (py_mod seconds1 1 * 1000);
          seconds2 = py_int seconds1
      in fmt_0d 2 hours @ '':'' @ fmt_0d 2 minutes @ '':'' @ fmt_0d 2 seconds2 @ '','' @
         fmt_0d 3 milliseconds)"


subsection \<open>Segments and output formats (whisper-service/service.py)\<close>

record word_timing =
  w_word :: string
  w_start :: rat
  w_end :: rat
  w_probability :: rat

record segment =
  seg_start :: rat
  seg_end :: rat
  seg_text :: string
  seg_words :: "word_timing list option"

record transcription_info =
  info_language :: string
  info_language_probability :: rat
  info_duration :: rat

definition newline :: string where
  "newline = [CHR 0x0A]"

text \<open>The line \<open>f"{start_time} --> {end_time}"\<close> of a cue.\<close>

definition cue_times :: "(rat \<Rightarrow> string) \<Rightarrow> segment \<Rightarrow> string" where
  "cue_times render seg = render (seg_start seg) @ '' --> '' @ render (seg_end seg)"

text \<open>The loop of \<open>_format_vtt_output\<close>, appending three lines for each segment.\<close>

fun vtt_loop :: "segment list \<Rightarrow> string list \<Rightarrow> string list" where
  "vtt_loop [] vtt_lines = vtt_lines"
| "vtt_loop (seg # segs) vtt_lines =
     vtt_loop segs (vtt_lines @ [cue_times seconds_to_vtt_time seg, seg_text seg, []])"

definition format_vtt_output :: "segment list \<Rightarrow> string" where
  "format_vtt_output segments = str_join newline (vtt_loop segments [''WEBVTT'', []])"

text \<open>The loop of \<open>_format_srt_output\<close> over \<open>enumerate(segments, 1)\<close>: \<open>i\<close> is the index
  of the next segment.\<close>

fun srt_loop :: "nat \<Rightarrow> segment list \<Rightarrow> string list \<Rightarrow> string list" where
  "srt_loop i [] srt_lines = srt_lines"
| "srt_loop i (seg # segs) srt_lines =
     srt_loop (Suc i) segs
       (srt_lines @ [str_nat i, cue_times seconds_to_srt_time seg, seg_text seg, []])"

definition format_srt_lines :: "segment list \<Rightarrow> string list" where
  "format_srt_lines segments = srt_loop 1 segments []"

definition format_srt_output :: "segment list \<Rightarrow> string" where
  "format_srt_output segments = str_join newline (format_srt_lines segments)"

record json_segment =
  js_id :: nat
  js_start :: rat
  js_end :: rat
  js_text :: string
  js_words :: "word_timing list"

text \<open>What the handlers return: a dictionary with the key \<open>text\<close>, \<open>vtt\<close> or \<open>srt\<close>, the
  dictionary of \<open>_format_json_output\<close>, or the dictionary of \<open>detect_language\<close>.\<close>

datatype asr_result =
    TextResult string
  | VttResult string
  | SrtResult string
  | JsonResult string string rat rat "json_segment list"
  | LanguageResult string rat

text \<open>\<open>enumerate(segments)\<close> in \<open>_format_json_output\<close>.\<close>

fun json_segments :: "nat \<Rightarrow> segment list \<Rightarrow> json_segment list" where
  "json_segments i [] = []"
| "json_segments i (seg # segs) =
     \<lparr>js_id = i, js_start = seg_start seg, js_end = seg_end seg, js_text = seg_text seg,
      js_words = (case seg_words seg of None \<Rightarrow> [] | Some ws \<Rightarrow> ws)\<rparr>
     # json_segments (Suc i) segs"

definition format_json_output :: "segment list \<Rightarrow> transcription_info \<Rightarrow> asr_result" where
  "format_json_output segments info =
     JsonResult (str_join '' '' (map seg_text segments)) (info_language info)
       (info_language_probability info) (info_duration info) (json_segments 0 segments)"


subsection \<open>transcribe_audio and detect_language\<close>

text \<open>The keyword arguments of \<open>self.model.transcribe\<close>; \<open>None\<close> is an argument the call
  leaves to the library's default.\<close>

record transcribe_args =
  arg_task :: "string option"
  arg_language :: "string option"
  arg_initial_prompt :: "string option"
  arg_beam_size :: int
  arg_best_of :: int
  arg_temperature :: "rat option"
  arg_compression_ratio_threshold :: "rat option"
  arg_log_prob_threshold :: "rat option"
  arg_no_speech_threshold :: "rat option"
  arg_condition_on_previous_text :: "bool option"
  arg_word_timestamps :: "bool option"

text \<open>The state of the ASR service that matters here is the disk; \<open>asr_trace\<close> is the
  ghost log of file operations and inference calls.\<close>

datatype asr_event = TempCreated string | Unlinked string | Transcribed string transcribe_args

record asr_state =
  asr_files :: "string \<rightharpoonup> string"
  asr_trace :: "asr_event list"

text \<open>The outside world of one call: the name \<open>tempfile.NamedTemporaryFile\<close> picks, given
  what is on disk, and the outcome of \<open>self.model.transcribe\<close> on a path with the content
  found there (segments and info, or the message of the exception raised by the call or
  while the segments are read).\<close>

datatype asr_world =
  AsrWorld (temp_name: "(string \<rightharpoonup> string) \<Rightarrow> string")
           (model_transcribe: "string \<Rightarrow> string option \<Rightarrow> transcribe_args
                                 \<Rightarrow> string + segment list \<times> transcription_info")

text \<open>The \<open>with tempfile.NamedTemporaryFile(delete=False, suffix=".wav")\<close> block: the
  upload is written to a new file, which stays on disk when the block ends.\<close>

definition stage_upload :: "asr_world \<Rightarrow> string \<Rightarrow> asr_state \<Rightarrow> string \<times> asr_state" where
  "stage_upload w audio s =
     (let temp_path = temp_name w (asr_files s)
      in (temp_path,
          s\<lparr>asr_files := (asr_files s)(temp_path \<mapsto> audio),
            asr_trace := asr_trace s @ [TempCreated temp_path]\<rparr>))"

text \<open>\<open>os.unlink(path)\<close>: raises \<open>FileNotFoundError\<close>, an \<open>OSError\<close>, when the file is not
  there.\<close>

definition os_unlink :: "string \<Rightarrow> asr_state \<Rightarrow> (exn + unit) \<times> asr_state" where
  "os_unlink p s =
     (if asr_files s p = None
        then (Inl (PyError (''[Errno 2] No such file or directory: '' @ [CHR 0x27] @ p @ [CHR 0x27])),
              s\<lparr>asr_trace := asr_trace s @ [Unlinked p]\<rparr>)
      else (Inr (), s\<lparr>asr_files := (asr_files s)(p := None),
                       asr_trace := asr_trace s @ [Unlinked p]\<rparr>))"

text \<open>The \<open>finally\<close> block: \<open>os.unlink(temp_path)\<close>, an \<open>OSError\<close> only logged.\<close>

definition cleanup_temp :: "string \<Rightarrow> asr_state \<Rightarrow> asr_state" where
  "cleanup_temp temp_path s =
     (case os_unlink temp_path s of
        (Inl e, s1) \<Rightarrow> s1
      | (Inr u, s1) \<Rightarrow> s1)"

definition run_model ::
  "asr_world \<Rightarrow> string \<Rightarrow> transcribe_args \<Rightarrow> asr_state
     \<Rightarrow> (string + segment list \<times> transcription_info) \<times> asr_state" where
  "run_model w p args s =
     (model_transcribe w p (asr_files s p) args,
      s\<lparr>asr_trace := asr_trace s @ [Transcribed p args]\<rparr>)"

text \<open>\<open>get_settings().get_whisper_config()\<close>: the defaults of \<open>WhisperConfig\<close>.\<close>

definition whisper_beam_size :: int where
  "whisper_beam_size = 5"

definition whisper_temperature :: rat where
  "whisper_temperature = 0"

definition whisper_no_speech_threshold :: rat where
  "whisper_no_speech_threshold = 6/10"

definition whisper_condition_on_previous_text :: bool where
  "whisper_condition_on_previous_text = True"

definition transcribe_call_args ::
  "string \<Rightarrow> string option \<Rightarrow> string option \<Rightarrow> string \<Rightarrow> transcribe_args" where
  "transcribe_call_args task language initial_prompt output_format =
     \<lparr>arg_task = Some task, arg_language = language, arg_initial_prompt = initial_prompt,
      arg_beam_size = whisper_beam_size, arg_best_of = 5,
      arg_temperature = Some whisper_temperature,
      arg_compression_ratio_threshold = Some (24/10),
      arg_log_prob_threshold = Some (- 1),
      arg_no_speech_threshold = Some whisper_no_speech_threshold,
      arg_condition_on_previous_text = Some whisper_condition_on_previous_text,
      arg_word_timestamps = Some (output_format = ''json'')\<rparr>"

text \<open>The \<open>if\<close>/\<open>elif\<close> chain on \<open>output_format\<close>.\<close>

definition format_transcript ::
  "string \<Rightarrow> segment list \<Rightarrow> transcription_info \<Rightarrow> asr_result" where
  "format_transcript output_format segments info =
     (if output_format = ''json'' then format_json_output segments info
      else if output_format = ''txt'' then TextResult (str_join '' '' (map seg_text segments))
      else if output_format = ''vtt'' then VttResult (format_vtt_output segments)
      else if output_format = ''srt'' then SrtResult (format_srt_output segments)
      else TextResult (str_join '' '' (map seg_text segments)))"

definition transcribe_audio ::
  "asr_world \<Rightarrow> string \<Rightarrow> string \<Rightarrow> string option \<Rightarrow> string option \<Rightarrow> string \<Rightarrow> asr_state
     \<Rightarrow> (exn + asr_result) \<times> asr_state" where
  "transcribe_audio w audio task language initial_prompt output_format s =
     (case stage_upload w audio s of (temp_path, s1) \<Rightarrow>
       (case run_model w temp_path
               (transcribe_call_args task language initial_prompt output_format) s1 of
          (Inl msg, s2) \<Rightarrow>
            (Inl (HTTPException 500 (''Transcription failed: '' @ msg)),
             cleanup_temp temp_path s2)
        | (Inr (segments, info), s2) \<Rightarrow>
            (Inr (format_transcript output_format segments info),
             cleanup_temp temp_path s2)))"





text \<open>The spec's words for the plain-text output: the texts in segment order, a single
  space between neighbours, concatenated.\<close>

fun spaced :: "string list \<Rightarrow> string list" where
  "spaced [] = []"
| "spaced [t] = [t]"
| "spaced (t # u # us) = t # '' '' # spaced (u # us)"

definition space_joined_texts :: "segment list \<Rightarrow> string" where
  "space_joined_texts segments = concat (spaced (map seg_text segments))"


section \<open>Auxiliary notions and sample inputs\<close>

text \<open>\<open>grows s s'\<close>: the step from \<open>s\<close> to \<open>s'\<close> leaves the cache alone and only extends
  the log.\<close>

definition grows :: "'h state \<Rightarrow> 'h state \<Rightarrow> bool" where
  "grows s s' = (voice_models s' = voice_models s \<and> (\<exists>evs. trace s' = trace s @ evs))"

text \<open>Every waiting call is for a catalog voice and holds the two paths of that voice.\<close>

definition waiting_ok :: "ServiceConfig \<Rightarrow> 'h server \<Rightarrow> bool" where
  "waiting_ok config sv =
     list_all (\<lambda>(v, mp, cp). v \<in> dom VOICE_CATALOG \<and> mp = model_path config v \<and>
                              cp = config_path config v) (waiting sv)"

text \<open>The configuration when no environment variable is set, and the same with
  \<open>PIPER_MAX_TEXT_LENGTH=5\<close>.\<close>

definition default_config :: ServiceConfig where
  "default_config =
     \<lparr>host = ''0.0.0.0'', port = 9001, models_dir = ''models/piper'',
      default_voice = ''en_US-lessac-low'', max_text_length = 10000,
      max_concurrent_requests = 10, model_cache_size = 5, log_level = ''INFO'',
      log_file = ''logs/piper-service.log''\<rparr>"

definition short_text_config :: ServiceConfig where
  "short_text_config = default_config\<lparr>max_text_length := 5\<rparr>"

text \<open>Three outside worlds, with handles numbered: everything works; nothing works;
  only the metadata file of \<open>en_US-lessac-low\<close> cannot be fetched and half of it is
  written before the fetch fails.\<close>

definition online :: "nat world" where
  "online = World (\<lambda>url. Fetched ''bytes'') (\<lambda>mp cp. Inr 1) (\<lambda>txt h. Inr ''RIFF'')"

definition offline :: "nat world" where
  "offline = World (\<lambda>url. FetchFailed ''timed out'' None) (\<lambda>mp cp. Inl ''no model'')
                   (\<lambda>txt h. Inl ''no engine'')"

definition metadata_down :: "nat world" where
  "metadata_down =
     World (\<lambda>url. if url = hf_base @ ''en/en_US/lessac/low/en_US-lessac-low.onnx.json''
                   then FetchFailed ''HTTP Error 503'' (Some ''{'') else Fetched ''bytes'')
           (\<lambda>mp cp. Inr 1) (\<lambda>txt h. Inr ''RIFF'')"

definition lessac_low_model :: string where
  "lessac_low_model = ''models/piper/en_US-lessac-low.onnx''"

definition lessac_low_metadata :: string where
  "lessac_low_metadata = ''models/piper/en_US-lessac-low.onnx.json''"

text \<open>The catalog entry of \<open>en_US-lessac-low\<close>.\<close>

definition lessac_low :: voice_info where
  "lessac_low =
     \<lparr>vi_language = ''English (US)'', vi_speaker = ''Lessac'', vi_quality = ''low'',
      vi_sample_rate = 16000, vi_gender = ''female'',
      vi_base_url = hf_base @ ''en/en_US/lessac/low''\<rparr>"

text \<open>A sample recognition result of two segments, and an outside world that returns
  it.\<close>

definition sample_segments :: "segment list" where
  "sample_segments =
     [\<lparr>seg_start = 0, seg_end = 5/2, seg_text = ''Hello'', seg_words = None\<rparr>,
      \<lparr>seg_start = 5/2, seg_end = 7323/2, seg_text = ''world.'', seg_words = None\<rparr>]"

definition sample_info :: transcription_info where
  "sample_info =
     \<lparr>info_language = ''en'', info_language_probability = 99/100, info_duration = 7323/2\<rparr>"

definition hearing :: asr_world where
  "hearing = AsrWorld (\<lambda>disk. ''/tmp/tmpk3v9.wav'') (\<lambda>p audio args. Inr (sample_segments, sample_info))"


section \<open>Lemmas about the Piper service\<close>

lemma grows_refl: "grows s s"
  by (simp add: grows_def)

lemma grows_trans: "grows s s1 \<Longrightarrow> grows s1 s2 \<Longrightarrow> grows s s2"
  by (auto simp: grows_def)

lemma grows_log_event: "grows s (log_event e s)"
  by (simp add: grows_def log_event_def)

lemma grows_path_exists: "path_exists p s = (b, s') \<Longrightarrow> grows s s'"
  by (auto simp: path_exists_def grows_def log_event_def)

lemma grows_path_unlink: "path_unlink p s = (r, s') \<Longrightarrow> grows s s'"
  by (auto simp: path_unlink_def grows_def log_event_def split: if_splits)

lemma grows_urlretrieve: "urlretrieve w url p s = (r, s') \<Longrightarrow> grows s s'"
  by (auto simp: urlretrieve_def grows_def log_event_def Let_def split: fetch_result.splits option.splits)

lemma grows_both_exist: "both_exist mp cp s = (b, s') \<Longrightarrow> grows s s'"
  by (auto simp: both_exist_def split: prod.splits bool.splits
           dest!: grows_path_exists intro: grows_trans)

lemma grows_fetch_missing: "fetch_missing w u v mp cp s = (r, s') \<Longrightarrow> grows s s'"
  by (auto simp: fetch_missing_def split: prod.splits sum.splits if_splits
           dest!: grows_path_exists grows_urlretrieve intro: grows_trans)

lemma grows_remove_partial: "remove_partial ps s = (r, s') \<Longrightarrow> grows s s'"
proof (induction ps arbitrary: s)
  case Nil
  then show ?case by (simp add: grows_refl)
next
  case (Cons p ps)
  then show ?case
    by (auto split: prod.splits bool.splits sum.splits
             dest!: grows_path_exists grows_path_unlink intro: grows_trans)
qed

lemma grows_download_voice_model:
  "download_voice_model w config v s = (r, s') \<Longrightarrow> grows s s'"
  unfolding download_voice_model_def Let_def
  by (auto simp: grows_refl simp del: remove_partial.simps
           split: option.splits prod.splits bool.splits sum.splits;
      blast intro: grows_trans dest: grows_both_exist grows_fetch_missing grows_remove_partial)

lemma download_voice_model_Inr:
  "download_voice_model w config v s = (Inr (mp, cp), s') \<Longrightarrow>
     v \<in> dom VOICE_CATALOG \<and> mp = model_path config v \<and> cp = config_path config v"
  by (auto simp: download_voice_model_def Let_def
           split: option.splits prod.splits bool.splits sum.splits)

lemma cache_inv_grows: "cache_inv config s \<Longrightarrow> grows s s' \<Longrightarrow> cache_inv config s'"
  by (auto simp: cache_inv_def grows_def)

lemma cache_inv_load_voice_model:
  assumes "cache_inv config s" and "load_voice_model w config v s = (r, s')"
  shows "cache_inv config s'"
proof (cases "voice_models s v")
  case (Some h)
  with assms show ?thesis by (simp add: load_voice_model_def)
next
  case None
  obtain d s1 where d: "download_voice_model w config v s = (d, s1)"
    by (cases "download_voice_model w config v s")
  have g: "grows s s1" using d by (rule grows_download_voice_model)
  have inv1: "cache_inv config s1" using assms(1) g by (rule cache_inv_grows)
  show ?thesis
  proof (cases d)
    case (Inl e)
    with assms(2) None d have "s' = s1" by (simp add: load_voice_model_def)
    with inv1 show ?thesis by simp
  next
    case (Inr paths)
    obtain mp cp where paths: "paths = (mp, cp)" by (cases paths)
    from d Inr paths have ok: "v \<in> dom VOICE_CATALOG" "mp = model_path config v" "cp = config_path config v"
      using download_voice_model_Inr by blast+
    show ?thesis
    proof (cases "piper_load w mp cp")
      case (Inl msg)
      with assms(2) None d Inr paths have "s' = log_event (VoiceLoadFailed mp cp) s1"
        by (simp add: load_voice_model_def)
      with inv1 show ?thesis using cache_inv_grows grows_log_event by blast
    next
      case (Inr h)
      with assms(2) None d \<open>d = Inr paths\<close> paths
      have "s' = log_event (VoiceLoaded mp cp h) (s1\<lparr>voice_models := (voice_models s1)(v \<mapsto> h)\<rparr>)"
        by (simp add: load_voice_model_def)
      with inv1 ok show ?thesis
        by (auto simp: cache_inv_def log_event_def)
    qed
  qed
qed

lemma files_path_exists: "path_exists p s = (b, s') \<Longrightarrow> files s' = files s \<and> b = (files s p \<noteq> None)"
  by (auto simp: path_exists_def log_event_def)

lemma files_both_exist:
  "both_exist mp cp s = (b, s') \<Longrightarrow>
     files s' = files s \<and> b = (files s mp \<noteq> None \<and> files s cp \<noteq> None)"
  by (auto simp: both_exist_def path_exists_def log_event_def split: prod.splits bool.splits)

lemma files_urlretrieve:
  "urlretrieve w url p s = (r, s') \<Longrightarrow> q \<noteq> p \<Longrightarrow> files s' q = files s q"
  by (auto simp: urlretrieve_def log_event_def Let_def split: fetch_result.splits option.splits)

lemma files_fetch_missing:
  "fetch_missing w u v mp cp s = (r, s') \<Longrightarrow> q \<noteq> mp \<Longrightarrow> q \<noteq> cp \<Longrightarrow> files s' q = files s q"
  unfolding fetch_missing_def path_exists_def urlretrieve_def log_event_def Let_def
  by (auto split: prod.splits sum.splits if_splits fetch_result.splits option.splits)

lemma files_path_unlink:
  "path_unlink p s = (r, s') \<Longrightarrow>
     files s' = (files s)(p := None) \<and> (files s p \<noteq> None \<longrightarrow> r = Inr ())"
  by (auto simp: path_unlink_def log_event_def split: if_splits)

lemma files_remove_partial:
  "remove_partial ps s = (r, s') \<Longrightarrow>
     r = Inr () \<and> files s' = (\<lambda>q. if q \<in> set ps then None else files s q)"
proof (induction ps arbitrary: s)
  case Nil
  then show ?case by simp
next
  case (Cons p ps)
  obtain b s1 where ex: "path_exists p s = (b, s1)" by (cases "path_exists p s")
  then have f1: "files s1 = files s" and b: "b = (files s p \<noteq> None)"
    using files_path_exists by blast+
  show ?case
  proof (cases b)
    case True
    obtain u s2 where ul: "path_unlink p s1 = (u, s2)" by (cases "path_unlink p s1")
    with True b f1 have u: "u = Inr ()" and f2: "files s2 = (files s)(p := None)"
      using files_path_unlink by fastforce+
    from Cons.prems ex True ul u have "remove_partial ps s2 = (r, s')" by simp
    from Cons.IH [OF this] f2 show ?thesis by (auto simp: fun_eq_iff)
  next
    case False
    with Cons.prems ex have "remove_partial ps s1 = (r, s')" by simp
    from Cons.IH [OF this] f1 False b show ?thesis by (auto simp: fun_eq_iff)
  qed
qed

lemma remove_partial_two:
  "remove_partial [mp, cp] s = (r, s') \<Longrightarrow>
     r = Inr () \<and> files s' = (files s)(mp := None, cp := None)"
  by (drule files_remove_partial) (auto simp: fun_eq_iff)

lemma download_voice_model_failure:
  assumes "VOICE_CATALOG v = Some voice"
      and "download_voice_model w config v s = (Inl e, s')"
  shows "\<exists>cause. e = HTTPException 500 (''Failed to download voice model: '' @ exn_str cause)"
    and "files s' = (files s)(model_path config v := None, config_path config v := None)"
proof -
  let ?mp = "model_path config v" and ?cp = "config_path config v"
  obtain b s1 where be: "both_exist ?mp ?cp s = (b, s1)"
    by (cases "both_exist ?mp ?cp s")
  obtain r2 s2 where fm: "fetch_missing w (vi_base_url voice) v ?mp ?cp s1 = (r2, s2)"
    by (cases "fetch_missing w (vi_base_url voice) v ?mp ?cp s1")
  obtain r3 s3 where rp: "remove_partial [?mp, ?cp] s2 = (r3, s3)"
    by (cases "remove_partial [?mp, ?cp] s2")
  from rp have r3: "r3 = Inr ()" and f3: "files s3 = (files s2)(?mp := None, ?cp := None)"
    using remove_partial_two by blast+
  from assms be fm rp r3
  have nb: "\<not> b" and s': "s' = s3"
    and e: "\<exists>cause. r2 = Inl cause \<and> e = HTTPException 500 (''Failed to download voice model: '' @ exn_str cause)"
    by (auto simp: download_voice_model_def Let_def simp del: remove_partial.simps
             split: bool.splits sum.splits)
  from e show "\<exists>cause. e = HTTPException 500 (''Failed to download voice model: '' @ exn_str cause)"
    by blast
  have f1: "files s1 = files s" using be files_both_exist by blast
  have "files s3 q = ((files s)(?mp := None, ?cp := None)) q" for q
  proof (cases "q = ?mp \<or> q = ?cp")
    case True
    then show ?thesis using f3 by auto
  next
    case False
    then have "files s2 q = files s1 q" using fm files_fetch_missing by blast
    with False f3 f1 show ?thesis by simp
  qed
  then show "files s' = (files s)(?mp := None, ?cp := None)"
    using s' by auto
qed

lemma paths_differ: "model_path config v \<noteq> config_path config v"
  by (simp add: model_path_def config_path_def)

lemma download_outcome_after_failed_fetch:
  assumes "VOICE_CATALOG v = Some voice"
      and "both_exist (model_path config v) (config_path config v) s = (False, s1)"
      and "fetch_missing w (vi_base_url voice) v (model_path config v) (config_path config v) s1
             = (Inl cause, s2)"
  shows "fst (download_voice_model w config v s)
           = Inl (HTTPException 500 (''Failed to download voice model: '' @ exn_str cause))"
proof -
  obtain r3 s3 where rp: "remove_partial [model_path config v, config_path config v] s2 = (r3, s3)"
    by (cases "remove_partial [model_path config v, config_path config v] s2")
  then have "r3 = Inr ()" using remove_partial_two by blast
  with assms rp show ?thesis
    by (simp add: download_voice_model_def Let_def del: remove_partial.simps)
qed

lemma model_fetch_failure_signalled:
  assumes "VOICE_CATALOG v = Some voice"
      and "files s (model_path config v) = None"
      and "fetch w (vi_base_url voice @ ''/'' @ v @ ''.onnx'') = FetchFailed msg partial"
  shows "fst (download_voice_model w config v s)
           = Inl (HTTPException 500 (''Failed to download voice model: '' @ msg))"
proof -
  let ?mp = "model_path config v" and ?cp = "config_path config v"
  have be: "both_exist ?mp ?cp s = (False, log_event (FsExists ?mp) s)"
    using assms(2) by (simp add: both_exist_def path_exists_def)
  obtain s2 where
    "fetch_missing w (vi_base_url voice) v ?mp ?cp (log_event (FsExists ?mp) s) = (Inl (PyError msg), s2)"
    using assms(2,3)
    by (auto simp: fetch_missing_def path_exists_def urlretrieve_def log_event_def Let_def
             split: option.splits)
  from download_outcome_after_failed_fetch [OF assms(1) be this] show ?thesis by simp
qed

lemma config_fetch_failure_signalled:
  assumes "VOICE_CATALOG v = Some voice"
      and "files s (config_path config v) = None"
      and "files s (model_path config v) \<noteq> None
             \<or> (\<exists>c. fetch w (vi_base_url voice @ ''/'' @ v @ ''.onnx'') = Fetched c)"
      and "fetch w (vi_base_url voice @ ''/'' @ v @ ''.onnx.json'') = FetchFailed msg partial"
  shows "fst (download_voice_model w config v s)
           = Inl (HTTPException 500 (''Failed to download voice model: '' @ msg))"
proof -
  let ?mp = "model_path config v" and ?cp = "config_path config v"
  obtain b s1 where be0: "both_exist ?mp ?cp s = (b, s1)"
    by (cases "both_exist ?mp ?cp s")
  with assms(2) have be: "both_exist ?mp ?cp s = (False, s1)" and f1: "files s1 = files s"
    using files_both_exist by fastforce+
  have ne: "?cp \<noteq> ?mp" using paths_differ by metis
  have "fst (fetch_missing w (vi_base_url voice) v ?mp ?cp s1) = Inl (PyError msg)"
  proof (cases "files s ?mp")
    case None
    with assms(3) obtain c where "fetch w (vi_base_url voice @ ''/'' @ v @ ''.onnx'') = Fetched c"
      by blast
    with None assms(2,4) f1 ne show ?thesis
      by (simp add: fetch_missing_def path_exists_def urlretrieve_def log_event_def Let_def
               split: option.splits)
  next
    case (Some m)
    with assms(2,4) f1 show ?thesis
      by (simp add: fetch_missing_def path_exists_def urlretrieve_def log_event_def Let_def
               split: option.splits)
  qed
  then obtain s2 where
    "fetch_missing w (vi_base_url voice) v ?mp ?cp s1 = (Inl (PyError msg), s2)"
    by (cases "fetch_missing w (vi_base_url voice) v ?mp ?cp s1") simp
  from download_outcome_after_failed_fetch [OF assms(1) be this] show ?thesis by simp
qed

lemma load_voice_model_hit:
  "voice_models s v = Some h \<Longrightarrow> load_voice_model w config v s = (Inr h, s)"
  by (simp add: load_voice_model_def)

lemma load_voice_model_caches:
  "load_voice_model w config v s = (Inr h, s1) \<Longrightarrow> voice_models s1 v = Some h"
  by (auto simp: load_voice_model_def log_event_def split: option.splits prod.splits sum.splits)

lemma load_voice_model_insert:
  assumes "voice_models s v = None"
      and "load_voice_model w config v s = (r, s')"
      and "voice_models s' \<noteq> voice_models s"
  shows "\<exists>s1 h. download_voice_model w config v s
                 = (Inr (model_path config v, config_path config v), s1) \<and>
               piper_load w (model_path config v) (config_path config v) = Inr h \<and>
               r = Inr h \<and> voice_models s' = (voice_models s)(v \<mapsto> h)"
proof -
  obtain d s1 where d: "download_voice_model w config v s = (d, s1)"
    by (cases "download_voice_model w config v s")
  then have g: "voice_models s1 = voice_models s"
    using grows_download_voice_model grows_def by metis
  show ?thesis
  proof (cases d)
    case (Inl e)
    with assms d g show ?thesis by (auto simp: load_voice_model_def)
  next
    case (Inr paths)
    obtain mp cp where paths: "paths = (mp, cp)" by (cases paths)
    from d Inr paths have ok: "mp = model_path config v" "cp = config_path config v"
      using download_voice_model_Inr by blast+
    from assms d g Inr paths ok show ?thesis
      by (auto simp: load_voice_model_def log_event_def split: sum.splits)
  qed
qed

lemma load_voice_model_failure_keeps_cache:
  "load_voice_model w config v s = (Inl e, s') \<Longrightarrow> voice_models s' = voice_models s"
  by (auto simp: load_voice_model_def log_event_def grows_def
           split: option.splits prod.splits sum.splits dest!: grows_download_voice_model)

lemma grows_snd_download_voice_model: "grows s (snd (download_voice_model w config v s))"
  by (cases "download_voice_model w config v s") (auto dest: grows_download_voice_model)

lemma grows_download_voice: "grows s (snd (download_voice w config v s))"
  by (auto simp: download_voice_def grows_refl split: option.splits prod.splits bool.splits
           intro: grows_trans grows_snd_download_voice_model dest: grows_both_exist)

lemma cache_inv_download_voice:
  "cache_inv config s \<Longrightarrow> cache_inv config (snd (download_voice w config v s))"
  using cache_inv_grows grows_download_voice by blast

lemma grows_synthesize_audio_sync: "synthesize_audio_sync w t h s = (r, s') \<Longrightarrow> grows s s'"
  by (auto simp: synthesize_audio_sync_def grows_log_event split: sum.splits)

lemma cache_inv_text_to_speech:
  "cache_inv config s \<Longrightarrow> cache_inv config (snd (text_to_speech w config request s))"
  by (auto simp: text_to_speech_def Let_def split: prod.splits sum.splits
           dest: cache_inv_load_voice_model grows_synthesize_audio_sync intro: cache_inv_grows)

lemma cache_inv_handle: "cache_inv config s \<Longrightarrow> cache_inv config (handle config op s)"
proof (cases op)
  case (PostTTS w request)
  assume "cache_inv config s"
  with PostTTS show ?thesis by (simp add: post_tts_def cache_inv_text_to_speech)
next
  case (PostDownloadVoice w v)
  assume "cache_inv config s"
  with PostDownloadVoice show ?thesis by (simp add: cache_inv_download_voice)
next
  case GetHealth
  assume "cache_inv config s"
  with GetHealth show ?thesis by simp
next
  case (Startup w)
  assume "cache_inv config s"
  with Startup show ?thesis
    using cache_inv_load_voice_model [of config s w "default_voice config"]
    by (cases "load_voice_model w config (default_voice config) s") (simp add: startup_event_def)
next
  case Shutdown
  then show ?thesis by (simp add: shutdown_event_def cache_inv_def)
qed

lemma cache_inv_serve: "cache_inv config s \<Longrightarrow> cache_inv config (serve config ops s)"
  by (induction ops arbitrary: s) (simp_all add: cache_inv_handle)

lemma cache_inv_fresh: "cache_inv config (fresh_state disk)"
  by (simp add: cache_inv_def fresh_state_def)

lemma fetch_missing_keeps_model:
  "fetch_missing w u v mp cp s = (r, s') \<Longrightarrow> files s mp \<noteq> None \<Longrightarrow> files s' mp \<noteq> None"
  unfolding fetch_missing_def path_exists_def urlretrieve_def log_event_def Let_def
  by (auto split: prod.splits sum.splits if_splits fetch_result.splits option.splits)

lemma remove_partial_unlinks_first:
  assumes "files s p \<noteq> None" and "remove_partial (p # ps) s = (r, s')"
  shows "FsUnlink p \<in> set (trace s')"
proof -
  let ?s1 = "log_event (FsExists p) s"
  let ?s2 = "log_event (FsUnlink p) (?s1\<lparr>files := (files ?s1)(p := None)\<rparr>)"
  from assms have "remove_partial ps ?s2 = (r, s')"
    by (auto simp: path_exists_def path_unlink_def log_event_def)
  then have "grows ?s2 s'" by (rule grows_remove_partial)
  then obtain evs where "trace s' = trace ?s2 @ evs" by (auto simp: grows_def)
  then show ?thesis by (simp add: log_event_def)
qed

lemma intact_model_unlinked:
  assumes "VOICE_CATALOG v = Some voice"
      and "files s (model_path config v) \<noteq> None"
      and "download_voice_model w config v s = (Inl e, s')"
  shows "FsUnlink (model_path config v) \<in> set (trace s')"
proof -
  let ?mp = "model_path config v" and ?cp = "config_path config v"
  obtain b s1 where be: "both_exist ?mp ?cp s = (b, s1)"
    by (cases "both_exist ?mp ?cp s")
  obtain r2 s2 where fm: "fetch_missing w (vi_base_url voice) v ?mp ?cp s1 = (r2, s2)"
    by (cases "fetch_missing w (vi_base_url voice) v ?mp ?cp s1")
  obtain r3 s3 where rp: "remove_partial [?mp, ?cp] s2 = (r3, s3)"
    by (cases "remove_partial [?mp, ?cp] s2")
  from rp have r3: "r3 = Inr ()" using remove_partial_two by blast
  from assms be fm rp r3 have s': "s' = s3"
    by (auto simp: download_voice_model_def Let_def simp del: remove_partial.simps
             split: bool.splits sum.splits)
  have "files s1 ?mp \<noteq> None" using be files_both_exist assms(2) by metis
  then have "files s2 ?mp \<noteq> None" using fm fetch_missing_keeps_model by blast
  then show ?thesis using rp s' remove_partial_unlinks_first by blast
qed

lemma load_voice_model_in_two_blocks:
  "load_voice_model w config v s =
     (case load_voice_model_begin w config v s of
        (LoadReturned r, s1) \<Rightarrow> (r, s1)
      | (LoadSuspended mp cp, s1) \<Rightarrow> load_voice_model_resume v mp cp (piper_load w mp cp) s1)"
  by (simp add: load_voice_model_def load_voice_model_begin_def load_voice_model_resume_def
           split: option.splits prod.splits sum.splits)

lemma grows_load_voice_model_begin:
  "load_voice_model_begin w config v s = (p, s1) \<Longrightarrow> grows s s1"
  by (auto simp: load_voice_model_begin_def grows_refl
           split: option.splits prod.splits sum.splits dest: grows_download_voice_model)

lemma load_voice_model_begin_suspended:
  "load_voice_model_begin w config v s = (LoadSuspended mp cp, s1) \<Longrightarrow>
     v \<in> dom VOICE_CATALOG \<and> mp = model_path config v \<and> cp = config_path config v"
  by (auto simp: load_voice_model_begin_def
           split: option.splits prod.splits sum.splits dest: download_voice_model_Inr)

lemma cache_inv_load_voice_model_resume:
  assumes "cache_inv config s" and "v \<in> dom VOICE_CATALOG"
  shows "cache_inv config
           (snd (load_voice_model_resume v (model_path config v) (config_path config v) outcome s))"
  using assms
  by (cases outcome) (auto simp: load_voice_model_resume_def cache_inv_def log_event_def)

lemma turn_keeps_inv:
  assumes "cache_inv config (shared sv)" and "waiting_ok config sv"
  shows "cache_inv config (shared (take_turn config t sv)) \<and> waiting_ok config (take_turn config t sv)"
proof (cases t)
  case (BeginLoad w v)
  obtain p s1 where b: "load_voice_model_begin w config v (shared sv) = (p, s1)"
    by (cases "load_voice_model_begin w config v (shared sv)")
  then have inv1: "cache_inv config s1"
    using assms(1) cache_inv_grows grows_load_voice_model_begin by blast
  show ?thesis
  proof (cases p)
    case (LoadReturned r)
    with BeginLoad b inv1 assms(2) show ?thesis by (simp add: waiting_ok_def)
  next
    case (LoadSuspended mp cp)
    with b load_voice_model_begin_suspended
    have "v \<in> dom VOICE_CATALOG \<and> mp = model_path config v \<and> cp = config_path config v"
      by blast
    with BeginLoad b LoadSuspended inv1 assms(2) show ?thesis by (simp add: waiting_ok_def)
  qed
next
  case (FinishLoad i outcome)
  show ?thesis
  proof (cases "i < length (waiting sv)")
    case True
    obtain v mp cp where e: "waiting sv ! i = (v, mp, cp)" by (cases "waiting sv ! i")
    from True have "waiting sv ! i \<in> set (waiting sv)" by simp
    with e assms(2)
    have ok: "v \<in> dom VOICE_CATALOG" "mp = model_path config v" "cp = config_path config v"
      by (auto simp: waiting_ok_def list_all_iff)
    have rest: "list_all P (take n xs) \<and> list_all P (drop m xs)"
      if "list_all P xs" for P n m and xs :: "(string \<times> string \<times> string) list"
      using that by (auto simp: list_all_iff dest: in_set_takeD in_set_dropD)
    from FinishLoad True e ok assms show ?thesis
      using cache_inv_load_voice_model_resume [of config "shared sv" v outcome]
      by (simp add: waiting_ok_def rest)
  next
    case False
    with FinishLoad assms show ?thesis by simp
  qed
next
  case (DownloadTask w v)
  with assms show ?thesis by (simp add: waiting_ok_def cache_inv_download_voice)
next
  case ClearCache
  with assms show ?thesis by (simp add: waiting_ok_def shutdown_event_def cache_inv_def)
qed

lemma interleave_keeps_inv:
  "cache_inv config (shared sv) \<Longrightarrow> waiting_ok config sv \<Longrightarrow>
     cache_inv config (shared (interleave config ts sv)) \<and> waiting_ok config (interleave config ts sv)"
  by (induction ts arbitrary: sv) (simp_all add: turn_keeps_inv)

lemma download_voice_model_ignores_text_limit:
  "download_voice_model w (config\<lparr>max_text_length := n\<rparr>) v s = download_voice_model w config v s"
  by (simp add: download_voice_model_def model_path_def config_path_def
        cong: option.case_cong)

lemma load_voice_model_ignores_text_limit:
  "load_voice_model w (config\<lparr>max_text_length := n\<rparr>) v s = load_voice_model w config v s"
  by (simp add: load_voice_model_def download_voice_model_ignores_text_limit
        cong: option.case_cong)

lemma voice_or_default_ignores_text_limit:
  "voice_or_default (config\<lparr>max_text_length := n\<rparr>) request = voice_or_default config request"
  by (simp add: voice_or_default_def split: option.splits)

lemmas piper_defs =
  load_voice_model_def download_voice_model_def both_exist_def fetch_missing_def
  path_exists_def path_unlink_def urlretrieve_def log_event_def model_path_def config_path_def
  VOICE_CATALOG_def EXTENDED_VOICE_CATALOG_def hf_base_def fresh_state_def default_config_def
  Let_def

lemma first_load:
  "load_voice_model online default_config ''en_US-lessac-low'' (fresh_state Map.empty) =
     (Inr 1,
      \<lparr>files = [''models/piper/en_US-lessac-low.onnx'' \<mapsto> ''bytes'',
                 ''models/piper/en_US-lessac-low.onnx.json'' \<mapsto> ''bytes''],
       voice_models = [''en_US-lessac-low'' \<mapsto> 1],
       trace = [FsExists ''models/piper/en_US-lessac-low.onnx'',
                FsExists ''models/piper/en_US-lessac-low.onnx'',
                NetFetch (hf_base @ ''en/en_US/lessac/low/en_US-lessac-low.onnx'')
                         ''models/piper/en_US-lessac-low.onnx'',
                FsExists ''models/piper/en_US-lessac-low.onnx.json'',
                NetFetch (hf_base @ ''en/en_US/lessac/low/en_US-lessac-low.onnx.json'')
                         ''models/piper/en_US-lessac-low.onnx.json'',
                VoiceLoaded ''models/piper/en_US-lessac-low.onnx''
                            ''models/piper/en_US-lessac-low.onnx.json'' 1]\<rparr>)"
  by (simp add: piper_defs online_def)

lemma unknown_lookup: "VOICE_CATALOG ''klingon'' = None"
  by (simp add: VOICE_CATALOG_def EXTENDED_VOICE_CATALOG_def)

lemma str_codes: "str_int 404 = ''404''" "str_int 500 = ''500''"
  by (simp_all add: str_int_def str_nat.simps digit_char_def)

section \<open>Lemmas about the Whisper service\<close>

lemma str_join_spaced: "str_join '' '' xs = concat (spaced xs)"
  by (induction xs rule: spaced.induct) simp_all









lemma digit_char_0: "n < 10 \<Longrightarrow> digit_char (n div 10) = CHR ''0''"
  by (simp add: digit_char_def)






























section \<open>The claims\<close>

subsection \<open>C1: only loaded handles are cached\<close>

text \<open>
  C1. For every voice identifier, a key of the model cache maps to a handle produced by a
  successful load. Whatever operations the service has handled since it started with an
  empty cache, one after the other or with the two blocks of concurrent calls of
  \<open>load_voice_model\<close> interleaved in any order, every cached handle belongs to a catalog
  voice and is the handle that a logged, successful \<open>PiperVoice.load\<close> of that voice's
  artifacts returned. \<open>load_voice_model\<close> keeps that invariant from any state; a call
  that changes the cache has seen both the download and the library load succeed and
  stores exactly the handle it returns; and a call that fails leaves the cache as it
  was.
\<close>

theorem cache_only_holds_loaded_handles:
  "cache_inv config (serve config ops (fresh_state disk)) \<and>
   cache_inv config (shared (interleave config turns (idle (fresh_state disk)))) \<and>
   load_voice_model w config v s =
     (case load_voice_model_begin w config v s of
        (LoadReturned r, s1) \<Rightarrow> (r, s1)
      | (LoadSuspended mp cp, s1) \<Rightarrow>
          load_voice_model_resume v mp cp (piper_load w mp cp) s1) \<and>
   (cache_inv config s \<longrightarrow> cache_inv config (snd (load_voice_model w config v s))) \<and>
   (voice_models s v = None \<and>
    voice_models (snd (load_voice_model w config v s)) \<noteq> voice_models s \<longrightarrow>
      (\<exists>s1 h. download_voice_model w config v s
                 = (Inr (model_path config v, config_path config v), s1) \<and>
              piper_load w (model_path config v) (config_path config v) = Inr h \<and>
              fst (load_voice_model w config v s) = Inr h \<and>
              voice_models (snd (load_voice_model w config v s)) = (voice_models s)(v \<mapsto> h))) \<and>
   (\<forall>e. fst (load_voice_model w config v s) = Inl e \<longrightarrow>
      voice_models (snd (load_voice_model w config v s)) = voice_models s)"
proof (intro conjI impI allI)
  show "cache_inv config (serve config ops (fresh_state disk))"
    by (rule cache_inv_serve) (rule cache_inv_fresh)
next
  show "cache_inv config (shared (interleave config turns (idle (fresh_state disk))))"
    using interleave_keeps_inv [of config "idle (fresh_state disk)" turns]
    by (simp add: idle_def waiting_ok_def cache_inv_fresh)
next
  show "load_voice_model w config v s =
     (case load_voice_model_begin w config v s of
        (LoadReturned r, s1) \<Rightarrow> (r, s1)
      | (LoadSuspended mp cp, s1) \<Rightarrow>
          load_voice_model_resume v mp cp (piper_load w mp cp) s1)"
    by (rule load_voice_model_in_two_blocks)
next
  assume "cache_inv config s"
  then show "cache_inv config (snd (load_voice_model w config v s))"
    using cache_inv_load_voice_model [of config s w v]
    by (cases "load_voice_model w config v s") simp
next
  assume a: "voice_models s v = None \<and>
    voice_models (snd (load_voice_model w config v s)) \<noteq> voice_models s"
  obtain r s' where l: "load_voice_model w config v s = (r, s')"
    by (cases "load_voice_model w config v s")
  with a load_voice_model_insert [of s v w config r s']
  show "\<exists>s1 h. download_voice_model w config v s
                 = (Inr (model_path config v, config_path config v), s1) \<and>
              piper_load w (model_path config v) (config_path config v) = Inr h \<and>
              fst (load_voice_model w config v s) = Inr h \<and>
              voice_models (snd (load_voice_model w config v s)) = (voice_models s)(v \<mapsto> h)"
    by simp
next
  fix e
  assume "fst (load_voice_model w config v s) = Inl e"
  then show "voice_models (snd (load_voice_model w config v s)) = voice_models s"
    using load_voice_model_failure_keeps_cache [of w config v s e]
    by (cases "load_voice_model w config v s") simp
qed

text \<open>After startup in a world where everything works, the default voice is cached with
  the handle the library returned, and the log holds that load; the same when the cache
  is cleared while the load is under way. With the network down the load fails and the
  cache stays empty.\<close>

theorem cache_only_holds_loaded_handles_witness:
  "voice_models (serve default_config [Startup online] (fresh_state Map.empty))
      ''en_US-lessac-low'' = Some 1 \<and>
   VoiceLoaded (model_path default_config ''en_US-lessac-low'')
               (config_path default_config ''en_US-lessac-low'') 1
     \<in> set (trace (serve default_config [Startup online] (fresh_state Map.empty))) \<and>
   piper_load online (model_path default_config ''en_US-lessac-low'')
                     (config_path default_config ''en_US-lessac-low'') = Inr 1 \<and>
   voice_models
     (shared (interleave default_config
                [BeginLoad online ''en_US-lessac-low'', ClearCache, FinishLoad 0 (Inr 1)]
                (idle (fresh_state Map.empty))))
     ''en_US-lessac-low'' = Some 1 \<and>
   VoiceLoaded (model_path default_config ''en_US-lessac-low'')
               (config_path default_config ''en_US-lessac-low'') 1
     \<in> set (trace (shared (interleave default_config
                [BeginLoad online ''en_US-lessac-low'', ClearCache, FinishLoad 0 (Inr 1)]
                (idle (fresh_state Map.empty))))) \<and>
   fst (load_voice_model offline default_config ''en_US-lessac-low'' (fresh_state Map.empty))
     = Inl (HTTPException 500
         ''Failed to load voice model: 500: Failed to download voice model: timed out'') \<and>
   voice_models (snd (load_voice_model offline default_config ''en_US-lessac-low''
                        (fresh_state Map.empty))) = Map.empty"
proof -
  let ?turns = "[BeginLoad online ''en_US-lessac-low'', ClearCache, FinishLoad 0 (Inr 1)]"
  note inst = cache_only_holds_loaded_handles
            [of default_config "[Startup online]" Map.empty ?turns online
                "''en_US-lessac-low''" "fresh_state Map.empty"]
  have cached: "voice_models (serve default_config [Startup online] (fresh_state Map.empty))
      ''en_US-lessac-low'' = Some 1"
    by (simp add: startup_event_def first_load [unfolded default_config_def]
          default_config_def)
  have "cache_inv default_config (serve default_config [Startup online] (fresh_state Map.empty))"
    using inst by blast
  with cached have loaded:
    "VoiceLoaded (model_path default_config ''en_US-lessac-low'')
                 (config_path default_config ''en_US-lessac-low'') 1
       \<in> set (trace (serve default_config [Startup online] (fresh_state Map.empty)))"
    by (simp add: cache_inv_def)
  have entered: "load_voice_model_begin online default_config ''en_US-lessac-low''
                 (fresh_state Map.empty)
               = (LoadSuspended lessac_low_model lessac_low_metadata,
                  snd (download_voice_model online default_config ''en_US-lessac-low''
                         (fresh_state Map.empty)))"
    by (simp add: load_voice_model_begin_def piper_defs online_def lessac_low_model_def
          lessac_low_metadata_def)
  have cached2: "voice_models (shared (interleave default_config ?turns
                                        (idle (fresh_state Map.empty))))
      ''en_US-lessac-low'' = Some 1"
    by (simp add: idle_def entered shutdown_event_def load_voice_model_resume_def log_event_def)
  have "cache_inv default_config
          (shared (interleave default_config ?turns (idle (fresh_state Map.empty))))"
    using inst by blast
  with cached2 have loaded2:
    "VoiceLoaded (model_path default_config ''en_US-lessac-low'')
                 (config_path default_config ''en_US-lessac-low'') 1
       \<in> set (trace (shared (interleave default_config ?turns
                                 (idle (fresh_state Map.empty)))))"
    by (simp add: cache_inv_def)
  have failed:
    "fst (load_voice_model offline default_config ''en_US-lessac-low'' (fresh_state Map.empty))
       = Inl (HTTPException 500
           ''Failed to load voice model: 500: Failed to download voice model: timed out'')"
    by (simp add: piper_defs offline_def str_codes)
  with cache_only_holds_loaded_handles
         [of default_config "[]" Map.empty "[]" offline "''en_US-lessac-low''"
             "fresh_state Map.empty"]
  have "voice_models (snd (load_voice_model offline default_config ''en_US-lessac-low''
                             (fresh_state Map.empty)))
          = voice_models (fresh_state Map.empty :: nat state)"
    by blast
  with cached loaded cached2 loaded2 failed show ?thesis
    by (simp add: online_def fresh_state_def)
qed


subsection \<open>C2: an unknown voice\<close>

text \<open>
  C2. A voice identifier outside the catalog must fail with a not-found outcome (404)
  without touching the filesystem or the network. \<open>download_voice_model\<close> does raise 404
  before any access, but \<open>load_voice_model\<close> catches every \<open>Exception\<close>, the 404
  included, and raises 500 in its place; \<open>/tts\<close> wraps that 500 once more. For the voice
  \<open>klingon\<close> the caller sees 500; the state, and with it the log of accesses, is
  unchanged.
\<close>

theorem unknown_voice_reported_as_server_error:
  "download_voice_model w config ''klingon'' s =
     (Inl (HTTPException 404 ''Voice 'klingon' not found in catalog''), s) \<and>
   load_voice_model w config ''klingon'' (fresh_state disk) =
     (Inl (HTTPException 500
        ''Failed to load voice model: 404: Voice 'klingon' not found in catalog''),
      fresh_state disk) \<and>
   post_tts w config \<lparr>req_text = ''hello'', req_voice = Some ''klingon'', req_speed = None\<rparr>
       (fresh_state disk) =
     (Inl (HTTPException 500
        ''TTS generation failed: 500: Failed to load voice model: 404: Voice 'klingon' not found in catalog''),
      fresh_state disk)"
  by (simp add: post_tts_def TTSRequest_valid_def text_to_speech_def voice_or_default_def
        load_voice_model_def download_voice_model_def unknown_lookup fresh_state_def str_codes)


subsection \<open>C3: a failed download leaves no artifact\<close>

text \<open>
  C3. For a voice of the catalog, whenever \<open>download_voice_model\<close> signals failure,
  neither the model file nor the metadata file of the voice is on disk afterwards. It
  does signal failure (500, with the cause) when the model file is missing and its fetch
  fails, and when the metadata file is missing and its fetch fails after the model file
  was found or fetched.
\<close>

theorem failed_download_leaves_no_artifacts:
  assumes "VOICE_CATALOG v = Some voice"
  shows
    "(\<forall>e s'. download_voice_model w config v s = (Inl e, s') \<longrightarrow>
        files s' (model_path config v) = None \<and> files s' (config_path config v) = None) \<and>
     (\<forall>msg partial.
        files s (model_path config v) = None \<and>
        fetch w (vi_base_url voice @ ''/'' @ v @ ''.onnx'') = FetchFailed msg partial \<longrightarrow>
        fst (download_voice_model w config v s)
          = Inl (HTTPException 500 (''Failed to download voice model: '' @ msg))) \<and>
     (\<forall>msg partial.
        files s (config_path config v) = None \<and>
        (files s (model_path config v) \<noteq> None
           \<or> (\<exists>c. fetch w (vi_base_url voice @ ''/'' @ v @ ''.onnx'') = Fetched c)) \<and>
        fetch w (vi_base_url voice @ ''/'' @ v @ ''.onnx.json'') = FetchFailed msg partial \<longrightarrow>
        fst (download_voice_model w config v s)
          = Inl (HTTPException 500 (''Failed to download voice model: '' @ msg)))"
proof (intro conjI allI impI)
  fix e s'
  assume "download_voice_model w config v s = (Inl e, s')"
  from download_voice_model_failure(2) [OF assms this]
  show "files s' (model_path config v) = None" and "files s' (config_path config v) = None"
    by simp_all
next
  fix msg partial
  assume "files s (model_path config v) = None \<and>
        fetch w (vi_base_url voice @ ''/'' @ v @ ''.onnx'') = FetchFailed msg partial"
  then show "fst (download_voice_model w config v s)
          = Inl (HTTPException 500 (''Failed to download voice model: '' @ msg))"
    using model_fetch_failure_signalled [OF assms] by blast
next
  fix msg partial
  assume "files s (config_path config v) = None \<and>
        (files s (model_path config v) \<noteq> None
           \<or> (\<exists>c. fetch w (vi_base_url voice @ ''/'' @ v @ ''.onnx'') = Fetched c)) \<and>
        fetch w (vi_base_url voice @ ''/'' @ v @ ''.onnx.json'') = FetchFailed msg partial"
  then show "fst (download_voice_model w config v s)
          = Inl (HTTPException 500 (''Failed to download voice model: '' @ msg))"
    using config_fetch_failure_signalled [OF assms] by blast
qed

text \<open>On an empty disk, with the metadata fetch failing half-way: the call fails with 500
  and neither the fetched model file nor the half-written metadata file remains. With
  the network down the fetch of the model file fails and the call fails with 500.\<close>

theorem failed_download_leaves_no_artifacts_witness:
  "VOICE_CATALOG ''en_US-lessac-low'' = Some lessac_low \<and>
   fst (download_voice_model metadata_down default_config ''en_US-lessac-low''
          (fresh_state Map.empty))
     = Inl (HTTPException 500 ''Failed to download voice model: HTTP Error 503'') \<and>
   files (snd (download_voice_model metadata_down default_config ''en_US-lessac-low''
                 (fresh_state Map.empty))) lessac_low_model = None \<and>
   files (snd (download_voice_model metadata_down default_config ''en_US-lessac-low''
                 (fresh_state Map.empty))) lessac_low_metadata = None \<and>
   fst (download_voice_model offline default_config ''en_US-lessac-low''
          (fresh_state Map.empty))
     = Inl (HTTPException 500 ''Failed to download voice model: timed out'')"
proof -
  have cat: "VOICE_CATALOG ''en_US-lessac-low'' = Some lessac_low"
    by (simp add: VOICE_CATALOG_def EXTENDED_VOICE_CATALOG_def lessac_low_def)
  obtain e s' where d:
    "download_voice_model metadata_down default_config ''en_US-lessac-low''
       (fresh_state Map.empty) = (e, s')"
    by (cases "download_voice_model metadata_down default_config ''en_US-lessac-low''
                 (fresh_state Map.empty)")
  have empty: "files (fresh_state Map.empty :: nat state) p = None" for p
    by (simp add: fresh_state_def)
  have urls:
    "fetch metadata_down (vi_base_url lessac_low @ ''/'' @ ''en_US-lessac-low'' @ ''.onnx'')
       = Fetched ''bytes''"
    "fetch metadata_down (vi_base_url lessac_low @ ''/'' @ ''en_US-lessac-low'' @ ''.onnx.json'')
       = FetchFailed ''HTTP Error 503'' (Some ''{'')"
    "fetch offline (vi_base_url lessac_low @ ''/'' @ ''en_US-lessac-low'' @ ''.onnx'')
       = FetchFailed ''timed out'' None"
    by (simp_all add: metadata_down_def offline_def lessac_low_def hf_base_def)
  note inst = failed_download_leaves_no_artifacts
               [OF cat, of metadata_down default_config "fresh_state Map.empty"]
  from inst urls empty
  have failed: "fst (download_voice_model metadata_down default_config ''en_US-lessac-low''
          (fresh_state Map.empty))
     = Inl (HTTPException 500 (''Failed to download voice model: '' @ ''HTTP Error 503''))"
    by blast
  with d have e: "e = Inl (HTTPException 500 (''Failed to download voice model: '' @ ''HTTP Error 503''))"
    by simp
  from inst d e
  have gone: "files s' (model_path default_config ''en_US-lessac-low'') = None \<and>
        files s' (config_path default_config ''en_US-lessac-low'') = None"
    by blast
  from failed_download_leaves_no_artifacts
         [OF cat, of offline default_config "fresh_state Map.empty"] urls empty
  have down: "fst (download_voice_model offline default_config ''en_US-lessac-low''
          (fresh_state Map.empty))
     = Inl (HTTPException 500 (''Failed to download voice model: '' @ ''timed out''))"
    by blast
  from cat failed d gone down show ?thesis
    by (simp add: model_path_def config_path_def default_config_def lessac_low_model_def
          lessac_low_metadata_def)
qed


subsection \<open>C4: the configured maximum text length\<close>

text \<open>
  C4. A request whose text is longer than the configured maximum (\<open>PIPER_MAX_TEXT_LENGTH\<close>)
  must be rejected before any model load or synthesis. The service never reads
  \<open>config.max_text_length\<close>: the only bound is the constant 10000 of the request model.
  With the valid setting 5, a text of 12 characters is accepted, the voice is loaded and
  the text is synthesized; and no setting of the maximum changes what \<open>/tts\<close> does.
\<close>

theorem configured_text_limit_not_enforced:
  "validate_config short_text_config = Inr () \<and>
   max_text_length short_text_config < int (length ''Hello, world'') \<and>
   fst (post_tts online short_text_config
          \<lparr>req_text = ''Hello, world'', req_voice = None, req_speed = Some 1\<rparr>
          (fresh_state Map.empty))
     = Inr \<lparr>content = ''RIFF'', media_type = ''audio/wav'',
            headers = [(''Content-Disposition'', ''inline; filename=\"speech.wav\"''),
                       (''Content-Length'', ''4'')]\<rparr> \<and>
   Synthesized ''Hello, world'' 1
     \<in> set (trace (snd (post_tts online short_text_config
                           \<lparr>req_text = ''Hello, world'', req_voice = None, req_speed = Some 1\<rparr>
                           (fresh_state Map.empty)))) \<and>
   post_tts w (config\<lparr>max_text_length := n\<rparr>) request s = post_tts w config request s"
proof -
  have load: "load_voice_model online short_text_config ''en_US-lessac-low''
                (fresh_state Map.empty)
              = load_voice_model online default_config ''en_US-lessac-low''
                  (fresh_state Map.empty)"
    by (simp add: short_text_config_def load_voice_model_ignores_text_limit)
  have run: "post_tts online short_text_config
          \<lparr>req_text = ''Hello, world'', req_voice = None, req_speed = Some 1\<rparr>
          (fresh_state Map.empty)
     = (Inr \<lparr>content = ''RIFF'', media_type = ''audio/wav'',
            headers = [(''Content-Disposition'', ''inline; filename=\"speech.wav\"''),
                       (''Content-Length'', ''4'')]\<rparr>,
        log_event (Synthesized ''Hello, world'' 1)
          (snd (load_voice_model online default_config ''en_US-lessac-low''
                  (fresh_state Map.empty))))"
  proof -
    have dv: "voice_or_default short_text_config
                \<lparr>req_text = ''Hello, world'', req_voice = None, req_speed = Some 1\<rparr>
              = ''en_US-lessac-low''"
      by (simp add: voice_or_default_def short_text_config_def default_config_def)
    have "str_nat 4 = ''4''"
      by (simp add: str_nat.simps digit_char_def)
    moreover have "Suc (Suc (Suc (Suc 0))) = 4"
      by simp
    ultimately have four: "str_nat (Suc (Suc (Suc (Suc 0)))) = ''4''"
      by (simp only:)
    have synth: "piper_synthesize online t h = Inr ''RIFF''" for t h
      by (simp add: online_def)
    show ?thesis
      by (simp add: post_tts_def TTSRequest_valid_def text_to_speech_def dv load first_load
            synthesize_audio_sync_def synth four)
  qed
  have valid: "validate_config short_text_config = Inr ()"
    by (simp add: validate_config_def short_text_config_def default_config_def)
  have longer: "max_text_length short_text_config < int (length ''Hello, world'')"
    by (simp add: short_text_config_def default_config_def)
  have unread: "post_tts w (config\<lparr>max_text_length := n\<rparr>) request s = post_tts w config request s"
    by (simp add: post_tts_def text_to_speech_def voice_or_default_ignores_text_limit
          load_voice_model_ignores_text_limit)
  from run valid longer unread show ?thesis
    by (simp add: log_event_def)
qed


subsection \<open>C5: a cached voice is served without any access\<close>

text \<open>
  C5. If the voice is in the cache, \<open>load_voice_model\<close> returns the cached handle and the
  state is unchanged, the log of filesystem, network and library accesses included. So
  after a successful call, a second call for the same voice, in any outside world,
  returns the same handle and does nothing else.
\<close>

theorem cached_voice_served_without_io:
  "(voice_models s v = Some h \<longrightarrow> load_voice_model w config v s = (Inr h, s)) \<and>
   (load_voice_model w config v s = (Inr h, s1) \<longrightarrow>
      load_voice_model w2 config v s1 = (Inr h, s1))"
  using load_voice_model_hit [of s v h w config]
        load_voice_model_hit [of s1 v h w2 config]
        load_voice_model_caches [of w config v s h s1]
  by blast

text \<open>The first call fetches both files and loads the voice; the second call, with the
  network and the library gone, returns the same handle and the same state, and so does
  every call in the state with the voice cached.\<close>

theorem cached_voice_served_without_io_witness:
  "fst (load_voice_model online default_config ''en_US-lessac-low'' (fresh_state Map.empty))
     = Inr 1 \<and>
   load_voice_model offline default_config ''en_US-lessac-low''
     (snd (load_voice_model online default_config ''en_US-lessac-low'' (fresh_state Map.empty)))
   = (Inr 1,
      snd (load_voice_model online default_config ''en_US-lessac-low'' (fresh_state Map.empty))) \<and>
   voice_models
     (snd (load_voice_model online default_config ''en_US-lessac-low'' (fresh_state Map.empty)))
     ''en_US-lessac-low'' = Some 1"
proof -
  obtain s1 where first:
    "load_voice_model online default_config ''en_US-lessac-low'' (fresh_state Map.empty)
       = (Inr 1, s1)"
    and cached: "voice_models s1 ''en_US-lessac-low'' = Some 1"
    using first_load by simp
  from first cached_voice_served_without_io
         [of "fresh_state Map.empty" "''en_US-lessac-low''" 1 online default_config s1 offline]
  have second: "load_voice_model offline default_config ''en_US-lessac-low'' s1 = (Inr 1, s1)"
    by blast
  from cached cached_voice_served_without_io
         [of s1 "''en_US-lessac-low''" 1 offline default_config s1 offline]
  have "load_voice_model offline default_config ''en_US-lessac-low'' s1 = (Inr 1, s1)"
    by blast
  with first second cached show ?thesis
    by simp
qed


subsection \<open>C6: timestamps and cue numbers\<close>




subsection \<open>C7: the plain-text output\<close>

text \<open>
  C7. When the model returns a list of segments, the \<open>txt\<close> output of
  \<open>transcribe_audio\<close> is the texts of the segments in segment order, concatenated with a
  single space between neighbours.
\<close>

theorem txt_output_space_joined:
  assumes "model_transcribe w (temp_name w (asr_files s)) (Some audio)
             (transcribe_call_args task language initial_prompt ''txt'') = Inr (segments, info)"
  shows "fst (transcribe_audio w audio task language initial_prompt ''txt'' s)
           = Inr (TextResult (space_joined_texts segments))"
  using assms
  by (simp add: transcribe_audio_def stage_upload_def run_model_def Let_def
        format_transcript_def space_joined_texts_def str_join_spaced)

text \<open>Two segments, \<open>Hello\<close> and \<open>world.\<close>, give \<open>Hello world.\<close>\<close>

theorem txt_output_space_joined_witness:
  "model_transcribe hearing (temp_name hearing Map.empty) (Some ''RIFF'')
     (transcribe_call_args ''transcribe'' None None ''txt'') = Inr (sample_segments, sample_info) \<and>
   fst (transcribe_audio hearing ''RIFF'' ''transcribe'' None None ''txt''
          \<lparr>asr_files = Map.empty, asr_trace = []\<rparr>)
     = Inr (TextResult ''Hello world.'')"
proof -
  have m: "model_transcribe hearing (temp_name hearing (asr_files \<lparr>asr_files = Map.empty, asr_trace = []\<rparr>))
     (Some ''RIFF'') (transcribe_call_args ''transcribe'' None None ''txt'')
       = Inr (sample_segments, sample_info)"
    by (simp add: hearing_def)
  have "space_joined_texts sample_segments = ''Hello world.''"
    by (simp add: space_joined_texts_def sample_segments_def)
  with txt_output_space_joined [OF m] m show ?thesis
    by simp
qed


subsection \<open>C8: the temporary audio file is removed\<close>



subsection \<open>C9: the speed of a request has no effect\<close>

text \<open>
  C9. For every text and voice and any two speeds in the accepted range 0.5 to 2.0,
  \<open>/tts\<close> gives the same answer and the same state, hence the same log of synthesis calls:
  the handler does not read the speed at all.
\<close>

theorem speed_has_no_effect:
  "(1/2 \<le> a \<and> a \<le> 2 \<and> 1/2 \<le> b \<and> b \<le> 2 \<longrightarrow>
      post_tts w config (request\<lparr>req_speed := Some a\<rparr>) s
        = post_tts w config (request\<lparr>req_speed := Some b\<rparr>) s) \<and>
   text_to_speech w config (request\<lparr>req_speed := x\<rparr>) s
     = text_to_speech w config (request\<lparr>req_speed := y\<rparr>) s"
  by (simp add: post_tts_def TTSRequest_valid_def text_to_speech_def voice_or_default_def
        cong: prod.case_cong sum.case_cong)

text \<open>Half speed and double speed give the same audio.\<close>

theorem speed_has_no_effect_witness:
  "post_tts online default_config
     \<lparr>req_text = ''Hello, world'', req_voice = None, req_speed = Some (1/2)\<rparr>
     (fresh_state Map.empty)
   = post_tts online default_config
       \<lparr>req_text = ''Hello, world'', req_voice = None, req_speed = Some 2\<rparr>
       (fresh_state Map.empty) \<and>
   TTSRequest_valid \<lparr>req_text = ''Hello, world'', req_voice = None, req_speed = Some (1/2)\<rparr> \<and>
   TTSRequest_valid \<lparr>req_text = ''Hello, world'', req_voice = None, req_speed = Some 2\<rparr>"
  using speed_has_no_effect
          [of "1/2" 2 online default_config
              "\<lparr>req_text = ''Hello, world'', req_voice = None, req_speed = None\<rparr>"
              "fresh_state Map.empty"]
  by (simp add: TTSRequest_valid_def)


subsection \<open>C10: a failed download also removes an intact file\<close>

text \<open>
  C10. For a voice of the catalog, after any failure that \<open>download_voice_model\<close>
  signals, the disk is the disk before the call with both artifact paths removed,
  whatever was there before. In particular, when the model file is on disk before the
  call, the metadata file is missing and its fetch fails, the call fails with 500, the
  model file is unlinked and the disk afterwards is the old disk without the model file.
\<close>

theorem failed_download_removes_intact_model:
  assumes "VOICE_CATALOG v = Some voice"
      and "download_voice_model w config v s = (r, s')"
  shows
    "((\<exists>e. r = Inl e) \<longrightarrow>
        files s' = (files s)(model_path config v := None, config_path config v := None)) \<and>
     (files s (model_path config v) = Some intact \<and>
      files s (config_path config v) = None \<and>
      fetch w (vi_base_url voice @ ''/'' @ v @ ''.onnx.json'') = FetchFailed msg partial \<longrightarrow>
        r = Inl (HTTPException 500 (''Failed to download voice model: '' @ msg)) \<and>
        files s' = (files s)(model_path config v := None) \<and>
        files s' (model_path config v) = None \<and>
        files s' (config_path config v) = None \<and>
        FsUnlink (model_path config v) \<in> set (trace s'))"
proof (intro conjI impI)
  assume "\<exists>e. r = Inl e"
  then show "files s' = (files s)(model_path config v := None, config_path config v := None)"
    using download_voice_model_failure(2) [OF assms(1)] assms(2) by blast
next
  assume a: "files s (model_path config v) = Some intact \<and>
      files s (config_path config v) = None \<and>
      fetch w (vi_base_url voice @ ''/'' @ v @ ''.onnx.json'') = FetchFailed msg partial"
  then have "fst (download_voice_model w config v s)
      = Inl (HTTPException 500 (''Failed to download voice model: '' @ msg))"
    using config_fetch_failure_signalled [OF assms(1), of s config w msg partial] by simp
  with assms(2)
  show r: "r = Inl (HTTPException 500 (''Failed to download voice model: '' @ msg))"
    by simp
  then have f: "files s' = (files s)(model_path config v := None, config_path config v := None)"
    using download_voice_model_failure(2) [OF assms(1)] assms(2) by blast
  with a show "files s' = (files s)(model_path config v := None)"
    by (auto simp: fun_eq_iff)
  from f show "files s' (model_path config v) = None"
    by simp
  from f show "files s' (config_path config v) = None"
    by simp
  show "FsUnlink (model_path config v) \<in> set (trace s')"
    using intact_model_unlinked [OF assms(1), of s config w _ s'] a assms(2) r by auto
qed

text \<open>The model file of \<open>en_US-lessac-low\<close> is on disk, the metadata fetch fails: the call
  fails and the disk is empty afterwards.\<close>

theorem failed_download_removes_intact_model_witness:
  "download_voice_model metadata_down default_config ''en_US-lessac-low''
     (fresh_state [lessac_low_model \<mapsto> ''intact model''])
   = (Inl (HTTPException 500 ''Failed to download voice model: HTTP Error 503''),
      \<lparr>files = Map.empty, voice_models = Map.empty,
       trace = [FsExists lessac_low_model, FsExists lessac_low_metadata,
                FsExists lessac_low_model, FsExists lessac_low_metadata,
                NetFetch (hf_base @ ''en/en_US/lessac/low/en_US-lessac-low.onnx.json'')
                         lessac_low_metadata,
                FsExists lessac_low_model, FsUnlink lessac_low_model,
                FsExists lessac_low_metadata, FsUnlink lessac_low_metadata]\<rparr>)"
proof -
  let ?s = "fresh_state [lessac_low_model \<mapsto> ''intact model''] :: nat state"
  have cat: "VOICE_CATALOG ''en_US-lessac-low'' = Some lessac_low"
    by (simp add: VOICE_CATALOG_def EXTENDED_VOICE_CATALOG_def lessac_low_def)
  have run: "download_voice_model metadata_down default_config ''en_US-lessac-low'' ?s
   = (Inl (HTTPException 500 ''Failed to download voice model: HTTP Error 503''),
      \<lparr>files = [lessac_low_model \<mapsto> ''intact model'']
                  (lessac_low_model := None, lessac_low_metadata := None),
       voice_models = Map.empty,
       trace = [FsExists lessac_low_model, FsExists lessac_low_metadata,
                FsExists lessac_low_model, FsExists lessac_low_metadata,
                NetFetch (hf_base @ ''en/en_US/lessac/low/en_US-lessac-low.onnx.json'')
                         lessac_low_metadata,
                FsExists lessac_low_model, FsUnlink lessac_low_model,
                FsExists lessac_low_metadata, FsUnlink lessac_low_metadata]\<rparr>)"
    by (simp add: piper_defs metadata_down_def lessac_low_model_def lessac_low_metadata_def)
  have "files (snd (download_voice_model metadata_down default_config ''en_US-lessac-low'' ?s))
          = (files ?s)(model_path default_config ''en_US-lessac-low'' := None,
                       config_path default_config ''en_US-lessac-low'' := None)"
    using failed_download_removes_intact_model [OF cat run, THEN conjunct1]
    by (simp add: run)
  then have "files (snd (download_voice_model metadata_down default_config
                           ''en_US-lessac-low'' ?s)) = Map.empty"
    by (simp add: fresh_state_def model_path_def config_path_def default_config_def
          lessac_low_model_def fun_eq_iff)
  with run show ?thesis by simp
qed

end
